theory Spec2Isabelle
  imports
    Complex_Main
    "HOL-Library.Char_ord"
    "HOL-Library.List_Lexorder"
    "HOL-Library.Option_ord"
    "HOL-Library.Multiset"
begin

section \<open>Data model (models.py)\<close>

text \<open>
  The two mapped classes of \<^verbatim>\<open>models.py\<close>. Python's \<^verbatim>\<open>None\<close> in a nullable column
  is \<open>None\<close>; the text columns declared \<^verbatim>\<open>nullable=False\<close> carry no option. The
  fields are prefixed (\<open>a_\<close>, \<open>b_\<close>) because both classes have an \<^verbatim>\<open>id\<close> and \<open>id\<close> is
  a constant of HOL. Strings are byte strings (UTF-8), which is what SQLite's default
  collation compares.

  SQLite types its columns by affinity only. A primary key holds integers, and a
  column of text affinity holds text (what is not text is turned into text when it is
  written), but the column \<^verbatim>\<open>author_id\<close>, of integer affinity, keeps a text that does
  not read as an integer: \<open>NonInteger v\<close> is the cell a text \<open>v\<close> leaves there that is
  no integer (SQLite keeps it as text, or as a real number when it reads as one). Such a
  cell is equal to no key.
\<close>

datatype cell = IntCell int | NonInteger string

record Author =
  a_id :: int
  a_name :: string
  a_bio :: "string option"
  a_city :: "string option"

record Book =
  b_id :: int
  b_title :: string
  b_isbn :: "string option"
  b_author_id :: cell

text \<open>
  The database: both tables in storage order (ascending rowid; a new row is appended),
  and whether the engine enforces the foreign key that \<^verbatim>\<open>Book.author_id\<close> declares.
  \<^verbatim>\<open>app.py\<close> opens \<^verbatim>\<open>sqlite:///books.db\<close> and never issues
  \<^verbatim>\<open>PRAGMA foreign_keys=ON\<close>, and SQLite enforces foreign keys only under that
  pragma: the store \<^verbatim>\<open>db.create_all()\<close> makes has \<open>foreign_keys = False\<close>. No handler
  changes the field.
\<close>

record store =
  authors :: "Author list"
  books :: "Book list"
  foreign_keys :: bool

definition create_all :: store where
  "create_all = \<lparr>authors = [], books = [], foreign_keys = False\<rparr>"

text \<open>
  Everything a handler can raise. \<open>BadRequestKeyError\<close> is what a missing key of
  \<^verbatim>\<open>request.form\<close> raises, \<open>KeyError\<close> what a missing key of a plain dict raises,
  \<open>OverflowError\<close> what the SQLite driver raises for an integer parameter outside
  signed 64 bits. \<open>Unmodelled\<close> is not an exception of the program: it marks the one
  request about which this development says nothing, the listing sorted by
  \<^verbatim>\<open>author_id\<close> over a table that has a \<open>NonInteger\<close> cell there.
\<close>

datatype error =
    NotFound
  | BadRequestKeyError string
  | KeyError string
  | ValueError
  | AttributeError
  | NotImplementedError
  | OverflowError
  | IntegrityError
  | Unmodelled

text \<open>
  The status Flask answers with. An \<^verbatim>\<open>HTTPException\<close> carries its own code; a
  \<open>BadRequestKeyError\<close> is re-raised as an unhandled exception when bad-request
  errors are trapped, which is the default in debug mode (\<^verbatim>\<open>app.run(debug=True)\<close>);
  every other exception is the default 500.
\<close>

fun status_of :: "bool \<Rightarrow> error \<Rightarrow> nat option" where
  "status_of debug NotFound = Some 404"
| "status_of debug (BadRequestKeyError k) = Some (if debug then 500 else 400)"
| "status_of debug (KeyError k) = Some 500"
| "status_of debug ValueError = Some 500"
| "status_of debug AttributeError = Some 500"
| "status_of debug NotImplementedError = Some 500"
| "status_of debug OverflowError = Some 500"
| "status_of debug IntegrityError = Some 500"
| "status_of debug Unmodelled = None"

record book_json =
  j_id :: int
  j_title :: string
  j_isbn :: "string option"
  j_author :: string

datatype response =
    JsonBooks "book_json list"
  | JsonPage int int "book_json list"
  | JsonSuccess
  | Redirect string string

fun status :: "response \<Rightarrow> nat" where
  "status (JsonBooks bs) = 200"
| "status (JsonPage t p bs) = 200"
| "status JsonSuccess = 200"
| "status (Redirect target flash) = 302"

section \<open>The platform\<close>

text \<open>
  Two conversions of text into integers are not code of this program, and every
  definition and theorem below takes them as they come, in the parameter \<open>P\<close>:
  \<^item> \<open>py_int P v\<close> is Python's \<^verbatim>\<open>int(v)\<close> on a string, \<open>None\<close> where it raises
    \<^verbatim>\<open>ValueError\<close>;
  \<^item> \<open>sqlite_integer P v\<close> is the integer SQLite stores when the text \<open>v\<close> is written
    into a column of integer affinity, \<open>None\<close> where it stores no integer.
\<close>

record platform =
  py_int :: "string \<Rightarrow> int option"
  sqlite_integer :: "string \<Rightarrow> int option"

text \<open>What SQLite and its driver take for an integer: signed 64 bits.\<close>

definition int64 :: "int \<Rightarrow> bool" where
  "int64 n = (- (2 ^ 63) \<le> n \<and> n < 2 ^ 63)"

section \<open>Request parameters\<close>

text \<open>\<^verbatim>\<open>request.form[key]\<close>: the value, or \<open>BadRequestKeyError\<close>.\<close>

definition form_item :: "(string \<rightharpoonup> string) \<Rightarrow> string \<Rightarrow> error + string" where
  "form_item form k = (case form k of None \<Rightarrow> Inl (BadRequestKeyError k) | Some v \<Rightarrow> Inr v)"

text \<open>\<^verbatim>\<open>int(request.form[key])\<close>.\<close>

definition form_int :: "platform \<Rightarrow> (string \<rightharpoonup> string) \<Rightarrow> string \<Rightarrow> error + int" where
  "form_int P form k =
     (case form_item form k of
        Inl e \<Rightarrow> Inl e
      | Inr v \<Rightarrow> (case py_int P v of None \<Rightarrow> Inl ValueError | Some n \<Rightarrow> Inr n))"

text \<open>
  \<^verbatim>\<open>request.args.get(key, default, type=int)\<close>: the default when the key is absent
  and also when the conversion fails.
\<close>

definition args_get_int :: "platform \<Rightarrow> (string \<rightharpoonup> string) \<Rightarrow> string \<Rightarrow> int \<Rightarrow> int" where
  "args_get_int P args k d =
     (case args k of None \<Rightarrow> d | Some v \<Rightarrow> (case py_int P v of None \<Rightarrow> d | Some n \<Rightarrow> n))"

text \<open>\<^verbatim>\<open>request.args.get(key, default)\<close>.\<close>

definition args_get :: "(string \<rightharpoonup> string) \<Rightarrow> string \<Rightarrow> string \<Rightarrow> string" where
  "args_get args k d = (case args k of None \<Rightarrow> d | Some v \<Rightarrow> v)"

text \<open>
  The values of the JSON object \<^verbatim>\<open>request.get_json()\<close> returns, as Python sees them:
  \<^verbatim>\<open>None\<close>, an int or a str. \<^verbatim>\<open>data[key]\<close> on the dict raises \<open>KeyError\<close> for a
  missing key.
\<close>

datatype pyval = PNone | PInt int | PStr string

definition dict_item :: "(string \<rightharpoonup> pyval) \<Rightarrow> string \<Rightarrow> error + pyval" where
  "dict_item data k = (case data k of None \<Rightarrow> Inl (KeyError k) | Some v \<Rightarrow> Inr v)"

section \<open>Queries and the session\<close>

definition Author_get :: "store \<Rightarrow> int \<Rightarrow> Author option" where
  "Author_get s i = find (\<lambda>a. a_id a = i) (authors s)"

definition Book_get :: "store \<Rightarrow> int \<Rightarrow> Book option" where
  "Book_get s i = find (\<lambda>b. b_id b = i) (books s)"

text \<open>
  \<^verbatim>\<open>query.get_or_404(id)\<close>: the row with that key, or \<open>NotFound\<close>. The id is a
  parameter of the \<^verbatim>\<open>SELECT\<close>; one outside 64 bits is the key of no row of a SQLite
  table, and the driver refuses to bind it: \<open>OverflowError\<close> in the place of
  \<open>NotFound\<close>.
\<close>

definition Author_get_or_404 :: "store \<Rightarrow> int \<Rightarrow> error + Author" where
  "Author_get_or_404 s i =
     (case Author_get s i of
        None \<Rightarrow> if int64 i then Inl NotFound else Inl OverflowError
      | Some a \<Rightarrow> Inr a)"

definition Book_get_or_404 :: "store \<Rightarrow> int \<Rightarrow> error + Book" where
  "Book_get_or_404 s i =
     (case Book_get s i of
        None \<Rightarrow> if int64 i then Inl NotFound else Inl OverflowError
      | Some b \<Rightarrow> Inr b)"

text \<open>
  The key SQLite gives a new row of a table whose primary key is an integer without
  \<^verbatim>\<open>AUTOINCREMENT\<close>: 1 in an empty table, otherwise one more than the largest in use.
  (A table whose largest key is the largest 64-bit integer gets some unused key
  instead; that table is not told apart here.)
\<close>

definition next_id :: "int list \<Rightarrow> int" where
  "next_id ids = (case ids of [] \<Rightarrow> 1 | x # xs \<Rightarrow> fold max xs x + 1)"

text \<open>
  The Author a cell of \<^verbatim>\<open>author_id\<close> names, and what the engine checks when such a
  cell is written: the foreign key, when it enforces it.
\<close>

fun author_of :: "store \<Rightarrow> cell \<Rightarrow> Author option" where
  "author_of s (IntCell n) = Author_get s n"
| "author_of s (NonInteger v) = None"

definition fk_violation :: "store \<Rightarrow> cell \<Rightarrow> bool" where
  "fk_violation s c = (foreign_keys s \<and> author_of s c = None)"

definition insert_author :: "string \<Rightarrow> string option \<Rightarrow> string option \<Rightarrow> store \<Rightarrow> store" where
  "insert_author nm bio city s =
     s\<lparr>authors := authors s @
         [\<lparr>a_id = next_id (map a_id (authors s)), a_name = nm, a_bio = bio, a_city = city\<rparr>]\<rparr>"

definition insert_book :: "string \<Rightarrow> string option \<Rightarrow> cell \<Rightarrow> store \<Rightarrow> error + store" where
  "insert_book t i c s =
     (if fk_violation s c then Inl IntegrityError
      else Inr (s\<lparr>books := books s @
         [\<lparr>b_id = next_id (map b_id (books s)), b_title = t, b_isbn = i, b_author_id = c\<rparr>]\<rparr>))"

text \<open>
  \<^verbatim>\<open>b.author\<close>, the backref of \<^verbatim>\<open>Author.books\<close>: the Author whose id is the Book's
  \<^verbatim>\<open>author_id\<close>, or \<^verbatim>\<open>None\<close>; \<^verbatim>\<open>.name\<close> on \<^verbatim>\<open>None\<close> raises \<open>AttributeError\<close>.
\<close>

definition book_dict :: "store \<Rightarrow> Book \<Rightarrow> error + book_json" where
  "book_dict s b =
     (case author_of s (b_author_id b) of
        None \<Rightarrow> Inl AttributeError
      | Some a \<Rightarrow> Inr \<lparr>j_id = b_id b, j_title = b_title b, j_isbn = b_isbn b, j_author = a_name a\<rparr>)"

text \<open>The list comprehension over the rows: the first failing element ends it.\<close>

fun book_dicts :: "store \<Rightarrow> Book list \<Rightarrow> error + book_json list" where
  "book_dicts s [] = Inr []"
| "book_dicts s (b # bs) =
     (case book_dict s b of
        Inl e \<Rightarrow> Inl e
      | Inr j \<Rightarrow> (case book_dicts s bs of Inl e \<Rightarrow> Inl e | Inr js \<Rightarrow> Inr (j # js)))"

section \<open>Author handlers (app.py)\<close>

text \<open>
  A handler returns the error it raised, or its response and the committed store. A
  request that raises commits nothing: the store stays as it was.
\<close>

definition add_author :: "(string \<rightharpoonup> string) \<Rightarrow> store \<Rightarrow> error + response \<times> store" where
  "add_author form s =
     (case form_item form ''name'' of
        Inl e \<Rightarrow> Inl e
      | Inr nm \<Rightarrow>
          Inr (Redirect ''index'' ''Author added successfully!'',
               insert_author nm (form ''bio'') (form ''city'') s))"

definition update_author :: "int \<Rightarrow> (string \<rightharpoonup> string) \<Rightarrow> store \<Rightarrow> error + response \<times> store" where
  "update_author i form s =
     (case Author_get_or_404 s i of
        Inl e \<Rightarrow> Inl e
      | Inr author \<Rightarrow>
          (case form_item form ''name'' of
             Inl e \<Rightarrow> Inl e
           | Inr nm \<Rightarrow>
               Inr (Redirect ''index'' ''Author updated successfully!'',
                    s\<lparr>authors := map (\<lambda>a. if a_id a = a_id author
                          then a\<lparr>a_name := nm, a_bio := form ''bio'', a_city := form ''city''\<rparr>
                          else a) (authors s)\<rparr>)))"

text \<open>
  \<^verbatim>\<open>db.session.delete(author)\<close> under \<^verbatim>\<open>cascade='all, delete-orphan'\<close>: the session
  deletes the Books of \<^verbatim>\<open>author.books\<close>, the rows whose \<^verbatim>\<open>author_id\<close> is the
  Author's id, and then the Author.
\<close>

definition delete_author :: "int \<Rightarrow> store \<Rightarrow> error + response \<times> store" where
  "delete_author i s =
     (case Author_get_or_404 s i of
        Inl e \<Rightarrow> Inl e
      | Inr author \<Rightarrow>
          Inr (Redirect ''index'' ''Author deleted successfully!'',
               s\<lparr>authors := filter (\<lambda>a. a_id a \<noteq> a_id author) (authors s),
                 books := filter (\<lambda>b. b_author_id b \<noteq> IntCell (a_id author)) (books s)\<rparr>))"

section \<open>Book handlers (app.py)\<close>

text \<open>
  \<^verbatim>\<open>author_id = int(request.form['author_id'])\<close> is a Python int of any size; the
  commit binds it to the \<^verbatim>\<open>INSERT\<close>, and the driver refuses one outside 64 bits.
\<close>

definition add_book :: "platform \<Rightarrow> (string \<rightharpoonup> string) \<Rightarrow> store \<Rightarrow> error + response \<times> store" where
  "add_book P form s =
     (case form_item form ''title'' of
        Inl e \<Rightarrow> Inl e
      | Inr t \<Rightarrow>
          (case form_item form ''isbn'' of
             Inl e \<Rightarrow> Inl e
           | Inr i \<Rightarrow>
               (case form_int P form ''author_id'' of
                  Inl e \<Rightarrow> Inl e
                | Inr aid \<Rightarrow>
                    if \<not> int64 aid then Inl OverflowError
                    else
                      (case insert_book t (Some i) (IntCell aid) s of
                         Inl e \<Rightarrow> Inl e
                       | Inr s' \<Rightarrow> Inr (Redirect ''index'' ''Book added successfully!'', s')))))"

text \<open>
  The commit of \<^verbatim>\<open>update_book\<close> writes the attributes that changed. A new
  \<^verbatim>\<open>author_id\<close> is bound to the \<^verbatim>\<open>UPDATE\<close> (refused outside 64 bits) and checked
  against the foreign key, when the engine enforces it.
\<close>

definition update_book ::
  "platform \<Rightarrow> int \<Rightarrow> (string \<rightharpoonup> string) \<Rightarrow> store \<Rightarrow> error + response \<times> store" where
  "update_book P i form s =
     (case Book_get_or_404 s i of
        Inl e \<Rightarrow> Inl e
      | Inr book \<Rightarrow>
          (case form_item form ''title'' of
             Inl e \<Rightarrow> Inl e
           | Inr t \<Rightarrow>
               (case form_item form ''isbn'' of
                  Inl e \<Rightarrow> Inl e
                | Inr isbn \<Rightarrow>
                    (case form_int P form ''author_id'' of
                       Inl e \<Rightarrow> Inl e
                     | Inr aid \<Rightarrow>
                         if \<not> int64 aid then Inl OverflowError
                         else if b_author_id book \<noteq> IntCell aid \<and> fk_violation s (IntCell aid)
                           then Inl IntegrityError
                         else Inr (Redirect ''index'' ''Book updated successfully!'',
                           s\<lparr>books := map (\<lambda>b. if b_id b = b_id book
                                 then b\<lparr>b_title := t, b_isbn := Some isbn,
                                        b_author_id := IntCell aid\<rparr>
                                 else b) (books s)\<rparr>)))))"

definition delete_book :: "int \<Rightarrow> store \<Rightarrow> error + response \<times> store" where
  "delete_book i s =
     (case Book_get_or_404 s i of
        Inl e \<Rightarrow> Inl e
      | Inr book \<Rightarrow>
          Inr (Redirect ''index'' ''Book deleted successfully!'',
               s\<lparr>books := filter (\<lambda>b. b_id b \<noteq> b_id book) (books s)\<rparr>))"

section \<open>REST handlers (app.py)\<close>

definition api_books :: "store \<Rightarrow> error + response" where
  "api_books s = (case book_dicts s (books s) of Inl e \<Rightarrow> Inl e | Inr js \<Rightarrow> Inr (JsonBooks js))"

text \<open>
  \<^verbatim>\<open>Book(title=..., isbn=..., author_id=...)\<close> with values taken from JSON, then the
  commit. The three values are bound to the \<^verbatim>\<open>INSERT\<close> as they are: the driver
  refuses an int outside 64 bits. A column of text affinity turns an integer into its
  decimal text; the column \<^verbatim>\<open>author_id\<close> turns a text into the integer it reads as, if
  any. \<^verbatim>\<open>title\<close> and \<^verbatim>\<open>author_id\<close> are \<^verbatim>\<open>nullable=False\<close>: a \<^verbatim>\<open>None\<close> there fails the
  statement, after the binding.
\<close>

fun bindable :: "pyval \<Rightarrow> bool" where
  "bindable (PInt n) = int64 n"
| "bindable PNone = True"
| "bindable (PStr v) = True"

definition digit_char :: "nat \<Rightarrow> char" where
  "digit_char n = ''0123456789'' ! n"

function nat_decimal :: "nat \<Rightarrow> string" where
  "nat_decimal n =
     (if n < 10 then [digit_char n]
      else nat_decimal (n div 10) @ [digit_char (n mod 10)])"
  by pat_completeness auto
termination
  by (relation "measure (\<lambda>n. n)") auto

definition decimal :: "int \<Rightarrow> string" where
  "decimal n = (if n < 0 then CHR ''-'' # nat_decimal (nat (- n)) else nat_decimal (nat n))"

fun text_affinity :: "pyval \<Rightarrow> string option" where
  "text_affinity PNone = None"
| "text_affinity (PStr v) = Some v"
| "text_affinity (PInt n) = Some (decimal n)"

fun integer_affinity :: "platform \<Rightarrow> pyval \<Rightarrow> cell option" where
  "integer_affinity P PNone = None"
| "integer_affinity P (PInt n) = Some (IntCell n)"
| "integer_affinity P (PStr v) =
     (case sqlite_integer P v of None \<Rightarrow> Some (NonInteger v) | Some n \<Rightarrow> Some (IntCell n))"

definition commit_new_book ::
  "platform \<Rightarrow> pyval \<Rightarrow> pyval \<Rightarrow> pyval \<Rightarrow> store \<Rightarrow> error + store" where
  "commit_new_book P t i aid s =
     (if \<not> (bindable t \<and> bindable i \<and> bindable aid) then Inl OverflowError
      else
        (case text_affinity t of
           None \<Rightarrow> Inl IntegrityError
         | Some t' \<Rightarrow>
             (case integer_affinity P aid of
                None \<Rightarrow> Inl IntegrityError
              | Some c \<Rightarrow> insert_book t' (text_affinity i) c s)))"

definition api_add_book ::
  "platform \<Rightarrow> (string \<rightharpoonup> pyval) \<Rightarrow> store \<Rightarrow> error + response \<times> store" where
  "api_add_book P data s =
     (case dict_item data ''title'' of
        Inl e \<Rightarrow> Inl e
      | Inr t \<Rightarrow>
          (case dict_item data ''isbn'' of
             Inl e \<Rightarrow> Inl e
           | Inr i \<Rightarrow>
               (case dict_item data ''author_id'' of
                  Inl e \<Rightarrow> Inl e
                | Inr aid \<Rightarrow>
                    (case commit_new_book P t i aid s of
                       Inl e \<Rightarrow> Inl e
                     | Inr s' \<Rightarrow> Inr (JsonSuccess, s')))))"

section \<open>Pagination\<close>

text \<open>
  \<^verbatim>\<open>Book.query.paginate(page=page, per_page=per_page)\<close>, the helper of
  Flask-SQLAlchemy. The call leaves \<^verbatim>\<open>max_per_page\<close> at \<^verbatim>\<open>None\<close> and
  \<^verbatim>\<open>error_out\<close> at \<^verbatim>\<open>True\<close>. The helper aborts with 404 when the page or the page
  size is below 1, and when the page has no items and is not page 1; its items are
  the query under \<^verbatim>\<open>LIMIT per_page OFFSET (page - 1) * per_page\<close>, its total the
  count of the query. Limit and offset are parameters of the statement: the driver
  refuses one outside 64 bits. The helper takes the number of pages as the ceiling of
  a floating-point quotient; that is the ceiling of the exact quotient, which stands
  here, as long as the total is below \<open>2^53\<close>.
\<close>

record pagination =
  pg_page :: int
  pg_per_page :: int
  pg_total :: int
  pg_items :: "Book list"

definition pages :: "pagination \<Rightarrow> int" where
  "pages pg =
     (if pg_total pg = 0 then 0
      else \<lceil>real_of_int (pg_total pg) / real_of_int (pg_per_page pg)\<rceil>)"

definition prepare_page_args :: "int \<Rightarrow> int \<Rightarrow> int option \<Rightarrow> bool \<Rightarrow> error + int \<times> int" where
  "prepare_page_args page per_page max_per_page error_out =
     (let per_page1 = (case max_per_page of None \<Rightarrow> per_page | Some m \<Rightarrow> min per_page m) in
      if page < 1 \<and> error_out then Inl NotFound
      else let page2 = (if page < 1 then 1 else page) in
        if per_page1 < 1 \<and> error_out then Inl NotFound
        else Inr (page2, if per_page1 < 1 then 20 else per_page1))"

definition paginate :: "int \<Rightarrow> int \<Rightarrow> int option \<Rightarrow> bool \<Rightarrow> Book list \<Rightarrow> error + pagination" where
  "paginate page per_page max_per_page error_out rows =
     (case prepare_page_args page per_page max_per_page error_out of
        Inl e \<Rightarrow> Inl e
      | Inr (pg, pp) \<Rightarrow>
          if \<not> (int64 pp \<and> int64 ((pg - 1) * pp)) then Inl OverflowError
          else
            (let items = take (nat pp) (drop (nat ((pg - 1) * pp)) rows) in
             if items = [] \<and> pg \<noteq> 1 \<and> error_out then Inl NotFound
             else Inr \<lparr>pg_page = pg, pg_per_page = pp, pg_total = int (length rows),
                        pg_items = items\<rparr>))"

text \<open>The handler after its two parameters are read.\<close>

definition books_page :: "int \<Rightarrow> int \<Rightarrow> store \<Rightarrow> error + response" where
  "books_page page per_page s =
     (case paginate page per_page None True (books s) of
        Inl e \<Rightarrow> Inl e
      | Inr pg \<Rightarrow>
          (case book_dicts s (pg_items pg) of
             Inl e \<Rightarrow> Inl e
           | Inr js \<Rightarrow> Inr (JsonPage (pg_total pg) (pages pg) js)))"

definition api_books_paginated ::
  "platform \<Rightarrow> (string \<rightharpoonup> string) \<Rightarrow> store \<Rightarrow> error + response" where
  "api_books_paginated P args s =
     books_page (args_get_int P args ''page'' 1) (args_get_int P args ''per_page'' 5) s"

section \<open>Sorting\<close>

text \<open>
  What \<^verbatim>\<open>getattr(Book, sort, Book.title)\<close> can find. The class body of \<^verbatim>\<open>Book\<close> gives
  four columns and two plain values (\<^verbatim>\<open>__tablename__\<close>, a str, and \<^verbatim>\<open>__repr__\<close>, a
  function). Whatever else the class has when the request comes is the parameter
  \<open>extra\<close>: the attributes it inherits from \<^verbatim>\<open>db.Model\<close> and \<^verbatim>\<open>object\<close>, plain
  values all, and the backref \<^verbatim>\<open>author\<close> of \<^verbatim>\<open>Author.books\<close>, a relationship, from
  the moment the mappers are configured. A name the class body declares shadows an
  inherited one.
\<close>

datatype column = Book_id | Book_title | Book_isbn | Book_author_id

datatype other_attr = Plain | Relationship

datatype attr = Column column | NonColumn other_attr

definition Book_getattr :: "(string \<Rightarrow> other_attr option) \<Rightarrow> string \<Rightarrow> attr option" where
  "Book_getattr extra nm =
     (if nm = ''id'' then Some (Column Book_id)
      else if nm = ''title'' then Some (Column Book_title)
      else if nm = ''isbn'' then Some (Column Book_isbn)
      else if nm = ''author_id'' then Some (Column Book_author_id)
      else if nm = ''__tablename__'' then Some (NonColumn Plain)
      else if nm = ''__repr__'' then Some (NonColumn Plain)
      else map_option NonColumn (extra nm))"

definition getattr_Book :: "(string \<Rightarrow> other_attr option) \<Rightarrow> string \<Rightarrow> attr \<Rightarrow> attr" where
  "getattr_Book extra nm d = (case Book_getattr extra nm of None \<Rightarrow> d | Some a \<Rightarrow> a)"

text \<open>
  \<^verbatim>\<open>ORDER BY column ASC\<close> and \<^verbatim>\<open>DESC\<close> over the rows. SQLite puts \<^verbatim>\<open>NULL\<close> before
  every value and compares text bytewise, as the orders on \<open>option\<close> and on lists
  of characters do. SQL leaves the order of rows with equal keys open; here they stay
  in storage order ascending, and in its reverse descending. The cells of
  \<^verbatim>\<open>author_id\<close> are ordered as integers; where the column has a \<open>NonInteger\<close> cell
  the order is not defined here, and the handler below answers \<open>Unmodelled\<close>.
\<close>

definition sort_rows :: "(Book \<Rightarrow> 'k::linorder) \<Rightarrow> bool \<Rightarrow> Book list \<Rightarrow> Book list" where
  "sort_rows f desc rows = (if desc then rev (sort_key f rows) else sort_key f rows)"

fun cell_int :: "cell \<Rightarrow> int option" where
  "cell_int (IntCell n) = Some n"
| "cell_int (NonInteger v) = None"

fun order_by :: "column \<Rightarrow> bool \<Rightarrow> Book list \<Rightarrow> Book list" where
  "order_by Book_id desc rows = sort_rows b_id desc rows"
| "order_by Book_title desc rows = sort_rows b_title desc rows"
| "order_by Book_isbn desc rows = sort_rows b_isbn desc rows"
| "order_by Book_author_id desc rows = sort_rows (\<lambda>b. cell_int (b_author_id b)) desc rows"

fun orderable :: "column \<Rightarrow> Book list \<Rightarrow> bool" where
  "orderable Book_author_id rows = list_all (\<lambda>b. cell_int (b_author_id b) \<noteq> None) rows"
| "orderable c rows = True"

text \<open>
  \<^verbatim>\<open>column.desc() if order == 'desc' else column.asc()\<close>: a plain value has neither
  method, and a relationship refuses the operator.
\<close>

definition api_books_sorting ::
  "(string \<Rightarrow> other_attr option) \<Rightarrow> (string \<rightharpoonup> string) \<Rightarrow> store \<Rightarrow> error + response" where
  "api_books_sorting extra args s =
     (let sort = args_get args ''sort'' ''title'';
          order = args_get args ''order'' ''asc''
      in case getattr_Book extra sort (Column Book_title) of
           NonColumn Plain \<Rightarrow> Inl AttributeError
         | NonColumn Relationship \<Rightarrow> Inl NotImplementedError
         | Column c \<Rightarrow>
             if \<not> orderable c (books s) then Inl Unmodelled
             else
               (case book_dicts s (order_by c (order = ''desc'') (books s)) of
                  Inl e \<Rightarrow> Inl e
                | Inr js \<Rightarrow> Inr (JsonBooks js)))"

section \<open>Well-formed stores\<close>

text \<open>
  The primary keys of a table are unique, and referential integrity: the Author of
  every Book is there.
\<close>

definition pk_unique :: "store \<Rightarrow> bool" where
  "pk_unique s = (distinct (map a_id (authors s)) \<and> distinct (map b_id (books s)))"

definition ref_integrity :: "store \<Rightarrow> bool" where
  "ref_integrity s = list_all (\<lambda>b. author_of s (b_author_id b) \<noteq> None) (books s)"

text \<open>
  The number of pages the helper reports for a page size over the rows of a query,
  and the \<^verbatim>\<open>books\<close> array of a response (empty when the request failed).
\<close>

definition page_count :: "int \<Rightarrow> Book list \<Rightarrow> int" where
  "page_count per_page rows =
     pages \<lparr>pg_page = 1, pg_per_page = per_page, pg_total = int (length rows), pg_items = []\<rparr>"

fun response_books :: "error + response \<Rightarrow> book_json list" where
  "response_books (Inr (JsonBooks js)) = js"
| "response_books (Inr (JsonPage t p js)) = js"
| "response_books (Inr JsonSuccess) = []"
| "response_books (Inr (Redirect target flash)) = []"
| "response_books (Inl e) = []"

text \<open>
  The stores the handlers produce from the empty database, under an engine that
  enforces foreign keys (\<open>fk\<close>) or does not.
\<close>

inductive reachable :: "platform \<Rightarrow> bool \<Rightarrow> store \<Rightarrow> bool" for P :: platform and fk :: bool where
  start: "reachable P fk \<lparr>authors = [], books = [], foreign_keys = fk\<rparr>"
| by_add_author: "reachable P fk s \<Longrightarrow> add_author form s = Inr (r, s') \<Longrightarrow> reachable P fk s'"
| by_update_author: "reachable P fk s \<Longrightarrow> update_author i form s = Inr (r, s') \<Longrightarrow> reachable P fk s'"
| by_delete_author: "reachable P fk s \<Longrightarrow> delete_author i s = Inr (r, s') \<Longrightarrow> reachable P fk s'"
| by_add_book: "reachable P fk s \<Longrightarrow> add_book P form s = Inr (r, s') \<Longrightarrow> reachable P fk s'"
| by_update_book: "reachable P fk s \<Longrightarrow> update_book P i form s = Inr (r, s') \<Longrightarrow> reachable P fk s'"
| by_delete_book: "reachable P fk s \<Longrightarrow> delete_book i s = Inr (r, s') \<Longrightarrow> reachable P fk s'"
| by_api_add_book: "reachable P fk s \<Longrightarrow> api_add_book P data s = Inr (r, s') \<Longrightarrow> reachable P fk s'"

section \<open>A platform for the examples\<close>

text \<open>
  The theorems hold for every platform. The examples run the handlers on the one
  below. It reads a string of one or more ASCII digits as its decimal value (into a
  column of integer affinity only when the value fits 64 bits) and no other string.
  On the strings the examples use, short strings of digits only or of letters only,
  this is what Python and SQLite do.
\<close>

definition is_digit :: "char \<Rightarrow> bool" where
  "is_digit c = (let n = (of_char c :: nat) in 48 \<le> n \<and> n \<le> 57)"

definition digit_val :: "char \<Rightarrow> nat" where
  "digit_val c = of_char c - 48"

definition digits_value :: "string \<Rightarrow> int option" where
  "digits_value v =
     (if v \<noteq> [] \<and> list_all is_digit v
      then Some (int (foldl (\<lambda>a c. 10 * a + digit_val c) 0 v)) else None)"

definition digits_value64 :: "string \<Rightarrow> int option" where
  "digits_value64 v =
     (case digits_value v of None \<Rightarrow> None | Some n \<Rightarrow> if int64 n then Some n else None)"

definition example_platform :: platform where
  "example_platform = \<lparr>py_int = digits_value, sqlite_integer = digits_value64\<rparr>"

section \<open>Keys and lookups\<close>

lemma fold_max_ge: "(x::int) \<le> fold max xs x"
  by (induction xs arbitrary: x) (auto intro: order_trans[OF max.cobounded2])

lemma fold_max_mem: "y \<in> set xs \<Longrightarrow> (y::int) \<le> fold max xs x"
proof (induction xs arbitrary: x)
  case Nil then show ?case by simp
next
  case (Cons z zs)
  show ?case
  proof (cases "y = z")
    case True
    have "z \<le> max z x" by simp
    also have "\<dots> \<le> fold max zs (max z x)" by (rule fold_max_ge)
    finally show ?thesis using True by simp
  next
    case False
    with Cons.prems have "y \<in> set zs" by simp
    then show ?thesis using Cons.IH by simp
  qed
qed

text \<open>A new key is above every key in use.\<close>

lemma next_id_fresh: "i \<in> set ids \<Longrightarrow> i < next_id ids"
proof (cases ids)
  case Nil
  assume "i \<in> set ids"
  with Nil show ?thesis by simp
next
  case (Cons x xs)
  assume mem: "i \<in> set ids"
  have "i \<le> fold max xs x"
  proof (cases "i = x")
    case True then show ?thesis by (simp add: fold_max_ge)
  next
    case False
    with mem Cons have "i \<in> set xs" by simp
    then show ?thesis by (rule fold_max_mem)
  qed
  then show ?thesis using Cons by (simp add: next_id_def)
qed

lemma find_append_eq:
  "find P (xs @ ys) = (case find P xs of None \<Rightarrow> find P ys | Some x \<Rightarrow> Some x)"
  by (induction xs) auto

lemma find_map_update:
  assumes "\<And>x. key (g x) = key x"
  shows "find (\<lambda>x. key x = i) (map (\<lambda>x. if key x = i then g x else x) xs)
       = map_option g (find (\<lambda>x. key x = i) xs)"
  using assms by (induction xs) auto

lemma Author_get_id: "Author_get s i = Some a \<Longrightarrow> a_id a = i"
  by (auto simp: Author_get_def dest: find_Some_iff[THEN iffD1])

lemma Book_get_id: "Book_get s i = Some b \<Longrightarrow> b_id b = i"
  by (auto simp: Book_get_def dest: find_Some_iff[THEN iffD1])

lemma Author_get_insert_author:
  "Author_get (insert_author nm bio city s) (next_id (map a_id (authors s)))
   = Some \<lparr>a_id = next_id (map a_id (authors s)), a_name = nm, a_bio = bio, a_city = city\<rparr>"
proof -
  have "find (\<lambda>a. a_id a = next_id (map a_id (authors s))) (authors s) = None"
    using next_id_fresh[of _ "map a_id (authors s)"] by (force simp: find_None_iff)
  then show ?thesis
    by (simp add: Author_get_def insert_author_def find_append_eq)
qed

section \<open>Required and optional form fields\<close>

text \<open>
  C9. \<^verbatim>\<open>POST /add-book\<close> fails with a missing-key error for every form without
  \<^verbatim>\<open>isbn\<close> (the error names \<^verbatim>\<open>title\<close> when that is missing too, since it is read
  first), although the column is nullable; \<^verbatim>\<open>POST /add-author\<close> with a \<^verbatim>\<open>name\<close>
  succeeds whatever else the form has, and the new Author has for \<^verbatim>\<open>bio\<close> and
  \<^verbatim>\<open>city\<close> what the form has for them: null when the form omits them.
\<close>

theorem add_book_needs_isbn_add_author_does_not_need_bio_city:
  "(form ''isbn'' = None \<longrightarrow>
      add_book P form s = Inl (BadRequestKeyError (if form ''title'' = None then ''title'' else ''isbn'')))
   \<and> (aform ''name'' = Some nm \<longrightarrow>
      (\<exists>r s' a. add_author aform s = Inr (r, s')
         \<and> Author_get s' (next_id (map a_id (authors s))) = Some a
         \<and> a_name a = nm \<and> a_bio a = aform ''bio'' \<and> a_city a = aform ''city''
         \<and> (aform ''bio'' = None \<longrightarrow> a_bio a = None)
         \<and> (aform ''city'' = None \<longrightarrow> a_city a = None)))"
proof (intro conjI impI)
  assume "form ''isbn'' = None"
  then show "add_book P form s = Inl (BadRequestKeyError (if form ''title'' = None then ''title'' else ''isbn''))"
    by (auto simp: add_book_def form_item_def split: option.splits)
next
  assume nm: "aform ''name'' = Some nm"
  let ?a = "\<lparr>a_id = next_id (map a_id (authors s)), a_name = nm, a_bio = aform ''bio'', a_city = aform ''city''\<rparr>"
  have "add_author aform s = Inr (Redirect ''index'' ''Author added successfully!'',
          insert_author nm (aform ''bio'') (aform ''city'') s)"
    using nm by (simp add: add_author_def form_item_def)
  moreover have "Author_get (insert_author nm (aform ''bio'') (aform ''city'') s) (next_id (map a_id (authors s))) = Some ?a"
    by (rule Author_get_insert_author)
  ultimately show "\<exists>r s' a. add_author aform s = Inr (r, s')
         \<and> Author_get s' (next_id (map a_id (authors s))) = Some a
         \<and> a_name a = nm \<and> a_bio a = aform ''bio'' \<and> a_city a = aform ''city''
         \<and> (aform ''bio'' = None \<longrightarrow> a_bio a = None)
         \<and> (aform ''city'' = None \<longrightarrow> a_city a = None)"
    by auto
qed

theorem add_book_needs_isbn_witness:
  "[''title'' \<mapsto> ''T'', ''author_id'' \<mapsto> ''1''] ''isbn'' = None
   \<and> add_book example_platform [''title'' \<mapsto> ''T'', ''author_id'' \<mapsto> ''1''] create_all = Inl (BadRequestKeyError ''isbn'')
   \<and> [''name'' \<mapsto> ''N''] ''name'' = Some ''N''
   \<and> add_author [''name'' \<mapsto> ''N''] create_all
       = Inr (Redirect ''index'' ''Author added successfully!'',
              \<lparr>authors = [\<lparr>a_id = 1, a_name = ''N'', a_bio = None, a_city = None\<rparr>],
                books = [], foreign_keys = False\<rparr>)"
  using add_book_needs_isbn_add_author_does_not_need_bio_city
          [of "[''title'' \<mapsto> ''T'', ''author_id'' \<mapsto> ''1'']" example_platform create_all
              "[''name'' \<mapsto> ''N'']" "''N''"]
  by (simp add: add_author_def form_item_def insert_author_def create_all_def next_id_def)

text \<open>
  C10. \<^verbatim>\<open>POST /update-author/{id}\<close> on an existing Author with a form that has a
  \<^verbatim>\<open>name\<close> succeeds, and afterwards the Author has the form's \<^verbatim>\<open>name\<close> and, for
  \<^verbatim>\<open>bio\<close> and \<^verbatim>\<open>city\<close>, what the form has: null for a field the form omits, whatever
  the Author had before.
\<close>

theorem update_author_overwrites_optional_fields:
  assumes "Author_get s i = Some a" and "form ''name'' = Some nm"
  shows "\<exists>r s'. update_author i form s = Inr (r, s')
           \<and> Author_get s' i = Some (a\<lparr>a_name := nm, a_bio := form ''bio'', a_city := form ''city''\<rparr>)
           \<and> (form ''bio'' = None \<longrightarrow> map_option a_bio (Author_get s' i) = Some None)
           \<and> (form ''city'' = None \<longrightarrow> map_option a_city (Author_get s' i) = Some None)"
proof -
  let ?g = "\<lambda>x. x\<lparr>a_name := nm, a_bio := form ''bio'', a_city := form ''city''\<rparr>"
  let ?s' = "s\<lparr>authors := map (\<lambda>x. if a_id x = i then ?g x else x) (authors s)\<rparr>"
  have id: "a_id a = i" using assms(1) by (rule Author_get_id)
  have run: "update_author i form s = Inr (Redirect ''index'' ''Author updated successfully!'', ?s')"
    using assms id by (simp add: update_author_def Author_get_or_404_def form_item_def)
  have "find (\<lambda>x. a_id x = i) (map (\<lambda>x. if a_id x = i then ?g x else x) (authors s))
        = map_option ?g (find (\<lambda>x. a_id x = i) (authors s))"
    by (rule find_map_update) simp
  then have get: "Author_get ?s' i = Some (?g a)"
    using assms(1) by (simp add: Author_get_def)
  show ?thesis using run get by simp
qed

theorem update_author_overwrites_optional_fields_witness:
  "Author_get \<lparr>authors = [\<lparr>a_id = 1, a_name = ''N'', a_bio = Some ''B'', a_city = Some ''C''\<rparr>],
                books = [], foreign_keys = False\<rparr> 1
     = Some \<lparr>a_id = 1, a_name = ''N'', a_bio = Some ''B'', a_city = Some ''C''\<rparr>
   \<and> [''name'' \<mapsto> ''M''] ''name'' = Some ''M''
   \<and> update_author 1 [''name'' \<mapsto> ''M'']
        \<lparr>authors = [\<lparr>a_id = 1, a_name = ''N'', a_bio = Some ''B'', a_city = Some ''C''\<rparr>],
          books = [], foreign_keys = False\<rparr>
     = Inr (Redirect ''index'' ''Author updated successfully!'',
            \<lparr>authors = [\<lparr>a_id = 1, a_name = ''M'', a_bio = None, a_city = None\<rparr>],
              books = [], foreign_keys = False\<rparr>)"
  using update_author_overwrites_optional_fields
          [of "\<lparr>authors = [\<lparr>a_id = 1, a_name = ''N'', a_bio = Some ''B'', a_city = Some ''C''\<rparr>],
                books = [], foreign_keys = False\<rparr>" 1
              "\<lparr>a_id = 1, a_name = ''N'', a_bio = Some ''B'', a_city = Some ''C''\<rparr>"
              "[''name'' \<mapsto> ''M'']" "''M''"]
  by (simp add: update_author_def Author_get_or_404_def Author_get_def form_item_def)

section \<open>Referential integrity\<close>

lemma Author_get_None_iff: "Author_get s i = None \<longleftrightarrow> i \<notin> a_id ` set (authors s)"
  by (auto simp: Author_get_def find_None_iff)

lemma author_of_None_iff:
  "author_of s c = None \<longleftrightarrow> c \<notin> IntCell ` a_id ` set (authors s)"
  by (cases c) (auto simp: Author_get_None_iff)

lemma ref_integrity_iff:
  "ref_integrity s \<longleftrightarrow> (\<forall>b\<in>set (books s). b_author_id b \<in> IntCell ` a_id ` set (authors s))"
  by (simp add: ref_integrity_def list_all_iff author_of_None_iff)

lemma insert_book_Inr:
  "insert_book t i c s = Inr s' \<Longrightarrow>
     \<not> fk_violation s c \<and> authors s' = authors s \<and> foreign_keys s' = foreign_keys s
     \<and> books s' = books s @ [\<lparr>b_id = next_id (map b_id (books s)), b_title = t, b_isbn = i, b_author_id = c\<rparr>]"
  by (auto simp: insert_book_def split: if_splits)

lemma ref_integrity_insert_book:
  assumes "ref_integrity s" "foreign_keys s" "insert_book t i c s = Inr s'"
  shows "ref_integrity s'"
proof -
  from insert_book_Inr[OF assms(3)] assms(2)
  have "c \<in> IntCell ` a_id ` set (authors s)" and "authors s' = authors s"
    and "books s' = books s @ [\<lparr>b_id = next_id (map b_id (books s)), b_title = t, b_isbn = i, b_author_id = c\<rparr>]"
    by (auto simp: fk_violation_def author_of_None_iff)
  with assms(1) show ?thesis by (auto simp: ref_integrity_iff)
qed

lemma add_author_keeps:
  assumes "add_author form s = Inr (r, s')"
  shows "foreign_keys s' = foreign_keys s" and "ref_integrity s \<Longrightarrow> ref_integrity s'"
  using assms
  by (fastforce simp: add_author_def insert_author_def ref_integrity_iff split: sum.splits)+

lemma update_author_keeps:
  assumes "update_author i form s = Inr (r, s')"
  shows "foreign_keys s' = foreign_keys s" and "ref_integrity s \<Longrightarrow> ref_integrity s'"
proof -
  from assms obtain g :: "Author \<Rightarrow> Author" and j where
    s': "s' = s\<lparr>authors := map (\<lambda>a. if a_id a = j then g a else a) (authors s)\<rparr>"
    and g: "\<And>a. a_id (g a) = a_id a"
    by (auto simp: update_author_def split: sum.splits)
  have "map a_id (map (\<lambda>a. if a_id a = j then g a else a) (authors s)) = map a_id (authors s)"
    by (simp add: g)
  then have "set (map a_id (authors s')) = set (map a_id (authors s))"
    by (simp add: s')
  then have ids: "a_id ` set (authors s') = a_id ` set (authors s)"
    by (simp only: set_map)
  show "foreign_keys s' = foreign_keys s" by (simp add: s')
  show "ref_integrity s \<Longrightarrow> ref_integrity s'"
    unfolding ref_integrity_iff ids by (simp add: s')
qed

lemma delete_author_keeps:
  assumes "delete_author i s = Inr (r, s')"
  shows "foreign_keys s' = foreign_keys s" and "ref_integrity s \<Longrightarrow> ref_integrity s'"
  using assms
  by (fastforce simp: delete_author_def ref_integrity_iff split: sum.splits)+

lemma add_book_keeps:
  assumes "add_book P form s = Inr (r, s')"
  shows "foreign_keys s' = foreign_keys s"
    and "ref_integrity s \<Longrightarrow> foreign_keys s \<Longrightarrow> ref_integrity s'"
  using assms
  by (auto simp: add_book_def split: sum.splits if_splits
           dest: insert_book_Inr ref_integrity_insert_book)

lemma api_add_book_keeps:
  assumes "api_add_book P data s = Inr (r, s')"
  shows "foreign_keys s' = foreign_keys s"
    and "ref_integrity s \<Longrightarrow> foreign_keys s \<Longrightarrow> ref_integrity s'"
  using assms
  by (auto simp: api_add_book_def commit_new_book_def split: sum.splits if_splits option.splits
           dest: insert_book_Inr ref_integrity_insert_book)

lemma update_book_keeps:
  assumes "update_book P i form s = Inr (r, s')"
  shows "foreign_keys s' = foreign_keys s"
    and "ref_integrity s \<Longrightarrow> foreign_keys s \<Longrightarrow> ref_integrity s'"
proof -
  from assms obtain book t isbn aid where
    book: "Book_get_or_404 s i = Inr book"
    and ok: "\<not> (b_author_id book \<noteq> IntCell aid \<and> fk_violation s (IntCell aid))"
    and s': "s' = s\<lparr>books := map (\<lambda>b. if b_id b = b_id book
                 then b\<lparr>b_title := t, b_isbn := Some isbn, b_author_id := IntCell aid\<rparr>
                 else b) (books s)\<rparr>"
    by (auto simp: update_book_def split: sum.splits if_splits)
  show "foreign_keys s' = foreign_keys s" by (simp add: s')
  show "ref_integrity s'" if ri: "ref_integrity s" and fk: "foreign_keys s"
  proof -
    from book have mem: "book \<in> set (books s)"
      by (auto simp: Book_get_or_404_def Book_get_def split: option.splits if_splits
               dest: find_Some_iff[THEN iffD1] nth_mem)
    have "IntCell aid \<in> IntCell ` a_id ` set (authors s)"
    proof (cases "b_author_id book = IntCell aid")
      case True
      from ri mem have "b_author_id book \<in> IntCell ` a_id ` set (authors s)"
        unfolding ref_integrity_iff by blast
      with True show ?thesis by simp
    next
      case False
      with ok fk have "Author_get s aid \<noteq> None" by (simp add: fk_violation_def)
      then show ?thesis by (auto simp: Author_get_None_iff)
    qed
    with ri show ?thesis by (auto simp: ref_integrity_iff s')
  qed
qed

lemma delete_book_keeps:
  assumes "delete_book i s = Inr (r, s')"
  shows "foreign_keys s' = foreign_keys s" and "ref_integrity s \<Longrightarrow> ref_integrity s'"
  using assms
  by (fastforce simp: delete_book_def ref_integrity_iff split: sum.splits)+

lemma reachable_foreign_keys: "reachable P fk s \<Longrightarrow> foreign_keys s = fk"
  by (induction rule: reachable.induct)
     (simp_all add: add_author_keeps update_author_keeps delete_author_keeps add_book_keeps
        update_book_keeps delete_book_keeps api_add_book_keeps)

text \<open>Under an engine that enforces the foreign key, the handlers keep referential integrity.\<close>

lemma reachable_enforced_ref_integrity: "reachable P True s \<Longrightarrow> ref_integrity s"
proof (induction rule: reachable.induct)
  case start
  show ?case by (simp add: ref_integrity_def)
next
  case (by_add_author s form r s')
  then show ?case by (simp add: add_author_keeps)
next
  case (by_update_author s i form r s')
  then show ?case by (simp add: update_author_keeps)
next
  case (by_delete_author s i r s')
  then show ?case by (simp add: delete_author_keeps)
next
  case (by_add_book s form r s')
  then show ?case using reachable_foreign_keys[of P True s] by (simp add: add_book_keeps)
next
  case (by_update_book s i form r s')
  then show ?case using reachable_foreign_keys[of P True s] by (simp add: update_book_keeps)
next
  case (by_delete_book s i r s')
  then show ?case by (simp add: delete_book_keeps)
next
  case (by_api_add_book s data r s')
  then show ?case using reachable_foreign_keys[of P True s] by (simp add: api_add_book_keeps)
qed

lemma api_add_book_enforced_unknown_author:
  assumes "foreign_keys s" and "Author_get s aid = None" and "int64 aid"
    and "data ''title'' = Some (PStr t)" and "data ''isbn'' = Some PNone"
    and "data ''author_id'' = Some (PInt aid)"
  shows "api_add_book P data s = Inl IntegrityError"
  using assms
  by (simp add: api_add_book_def dict_item_def commit_new_book_def insert_book_def fk_violation_def)

text \<open>
  C5. Under an engine that enforces the declared foreign key, every store the handlers
  reach from the empty database has referential integrity, and \<^verbatim>\<open>POST /api/add-book\<close>
  with an unknown \<^verbatim>\<open>author_id\<close> fails at the commit (the two lemmas above); no handler
  checks the Author itself. The engine \<^verbatim>\<open>app.py\<close> configures does not enforce it: on
  the empty database the same request is committed and answered with success, the
  store it leaves is reachable and has a Book without Author, and \<^verbatim>\<open>GET /api/books\<close>
  then fails.
\<close>

theorem api_add_book_unknown_author_is_stored:
  "api_add_book P [''title'' \<mapsto> PStr ''T'', ''isbn'' \<mapsto> PNone, ''author_id'' \<mapsto> PInt 1] create_all
     = Inr (JsonSuccess,
            \<lparr>authors = [], books = [\<lparr>b_id = 1, b_title = ''T'', b_isbn = None, b_author_id = IntCell 1\<rparr>],
              foreign_keys = False\<rparr>)
   \<and> reachable P False
        \<lparr>authors = [], books = [\<lparr>b_id = 1, b_title = ''T'', b_isbn = None, b_author_id = IntCell 1\<rparr>],
          foreign_keys = False\<rparr>
   \<and> \<not> ref_integrity
        \<lparr>authors = [], books = [\<lparr>b_id = 1, b_title = ''T'', b_isbn = None, b_author_id = IntCell 1\<rparr>],
          foreign_keys = False\<rparr>
   \<and> api_books
        \<lparr>authors = [], books = [\<lparr>b_id = 1, b_title = ''T'', b_isbn = None, b_author_id = IntCell 1\<rparr>],
          foreign_keys = False\<rparr> = Inl AttributeError"
proof -
  let ?d = "[''title'' \<mapsto> PStr ''T'', ''isbn'' \<mapsto> PNone, ''author_id'' \<mapsto> PInt 1]"
  let ?bad = "\<lparr>authors = [], books = [\<lparr>b_id = 1, b_title = ''T'', b_isbn = None, b_author_id = IntCell 1\<rparr>],
          foreign_keys = False\<rparr>"
  have run: "api_add_book P ?d create_all = Inr (JsonSuccess, ?bad)"
    by (simp add: api_add_book_def dict_item_def commit_new_book_def insert_book_def
          fk_violation_def create_all_def next_id_def int64_def)
  have "reachable P False \<lparr>authors = [], books = [], foreign_keys = False\<rparr>"
    by (rule reachable.start)
  then have "reachable P False ?bad"
    using run unfolding create_all_def by (rule reachable.by_api_add_book)
  moreover have "\<not> ref_integrity ?bad"
    by (simp add: ref_integrity_def Author_get_def)
  moreover have "api_books ?bad = Inl AttributeError"
    by (simp add: api_books_def book_dict_def Author_get_def)
  ultimately show ?thesis using run by simp
qed

section \<open>Primary keys\<close>

lemma next_id_not_in_use: "next_id ids \<notin> set ids"
  using next_id_fresh[of "next_id ids" ids] by auto

lemma distinct_map_update:
  assumes "\<And>x. key (g x) = key x"
  shows "map key (map (\<lambda>x. if key x = i then g x else x) xs) = map key xs"
  using assms by (induction xs) auto

lemma next_id_not_in_use_map: "next_id (map key xs) \<notin> key ` set xs"
  using next_id_not_in_use[of "map key xs"] by simp

lemma insert_author_pk_unique: "pk_unique s \<Longrightarrow> pk_unique (insert_author nm bio city s)"
  by (simp add: pk_unique_def insert_author_def next_id_not_in_use_map)

lemma insert_book_pk_unique: "pk_unique s \<Longrightarrow> insert_book t i c s = Inr s' \<Longrightarrow> pk_unique s'"
  using next_id_not_in_use_map[of b_id "books s"]
  by (auto simp: pk_unique_def insert_book_def split: if_splits)

text \<open>The handlers keep the primary keys unique.\<close>

lemma reachable_pk_unique: "reachable P fk s \<Longrightarrow> pk_unique s"
proof (induction rule: reachable.induct)
  case start
  show ?case by (simp add: pk_unique_def)
next
  case (by_add_author s form r s')
  then show ?case
    by (auto simp: add_author_def insert_author_pk_unique split: sum.splits)
next
  case (by_update_author s i form r s')
  from by_update_author.hyps(2) obtain g :: "Author \<Rightarrow> Author" and j where
    s': "s' = s\<lparr>authors := map (\<lambda>a. if a_id a = j then g a else a) (authors s)\<rparr>"
    and g: "\<And>a. a_id (g a) = a_id a"
    by (auto simp: update_author_def split: sum.splits)
  have eq: "map a_id (map (\<lambda>a. if a_id a = j then g a else a) (authors s)) = map a_id (authors s)"
    by (rule distinct_map_update) (rule g)
  have "map a_id (authors s') = map a_id (authors s)" "books s' = books s"
    by (simp_all add: s' eq del: map_map)
  with by_update_author.IH show ?case by (simp only: pk_unique_def)
next
  case (by_delete_author s i r s')
  then show ?case
    by (auto simp: delete_author_def pk_unique_def distinct_map_filter split: sum.splits)
next
  case (by_add_book s form r s')
  then show ?case
    by (auto simp: add_book_def split: sum.splits if_splits dest: insert_book_pk_unique)
next
  case (by_update_book s i form r s')
  from by_update_book.hyps(2) obtain g :: "Book \<Rightarrow> Book" and j where
    s': "s' = s\<lparr>books := map (\<lambda>b. if b_id b = j then g b else b) (books s)\<rparr>"
    and g: "\<And>b. b_id (g b) = b_id b"
    by (auto simp: update_book_def split: sum.splits if_splits)
  have eq: "map b_id (map (\<lambda>b. if b_id b = j then g b else b) (books s)) = map b_id (books s)"
    by (rule distinct_map_update) (rule g)
  have "map b_id (books s') = map b_id (books s)" "authors s' = authors s"
    by (simp_all add: s' eq del: map_map)
  with by_update_book.IH show ?case by (simp only: pk_unique_def)
next
  case (by_delete_book s i r s')
  then show ?case
    by (auto simp: delete_book_def pk_unique_def distinct_map_filter split: sum.splits)
next
  case (by_api_add_book s data r s')
  then show ?case
    by (auto simp: api_add_book_def commit_new_book_def
             split: sum.splits if_splits option.splits dest: insert_book_pk_unique)
qed

section \<open>Reading Books, and deleting an Author\<close>

lemma book_dicts_Inr_iff:
  "book_dicts s xs = Inr js \<longleftrightarrow> list_all2 (\<lambda>b j. book_dict s b = Inr j) xs js"
proof (induction xs arbitrary: js)
  case Nil
  then show ?case by auto
next
  case (Cons x xs)
  show ?case
  proof (cases js)
    case Nil
    then show ?thesis by (auto split: sum.splits)
  next
    case (Cons j js')
    then show ?thesis using Cons.IH[of js'] by (auto split: sum.splits)
  qed
qed

lemma book_dict_Inr:
  "book_dict s b = Inr j \<longleftrightarrow>
     (\<exists>a. author_of s (b_author_id b) = Some a
        \<and> j = \<lparr>j_id = b_id b, j_title = b_title b, j_isbn = b_isbn b, j_author = a_name a\<rparr>)"
  by (auto simp: book_dict_def split: option.splits)

lemma book_dicts_total:
  assumes "\<forall>b\<in>set xs. author_of s (b_author_id b) \<noteq> None"
  shows "\<exists>js. book_dicts s xs = Inr js"
  using assms
proof (induction xs)
  case Nil
  then show ?case by simp
next
  case (Cons x xs)
  then obtain js where "book_dicts s xs = Inr js" by auto
  moreover from Cons.prems obtain a where "author_of s (b_author_id x) = Some a" by auto
  ultimately show ?case by (simp add: book_dict_def)
qed

lemma book_dicts_ids: "book_dicts s xs = Inr js \<Longrightarrow> map j_id js = map b_id xs"
  unfolding book_dicts_Inr_iff
  by (induction xs js rule: list_all2_induct) (auto simp: book_dict_Inr)

lemma book_dicts_titles: "book_dicts s xs = Inr js \<Longrightarrow> map j_title js = map b_title xs"
  unfolding book_dicts_Inr_iff
  by (induction xs js rule: list_all2_induct) (auto simp: book_dict_Inr)

lemma response_books_book_dicts_ids:
  "j_id ` set (response_books (case book_dicts s xs of Inl e \<Rightarrow> Inl e | Inr js \<Rightarrow> Inr (mk js)))
     \<subseteq> b_id ` set xs"
  if "\<And>js. response_books (Inr (mk js)) = js"
proof (cases "book_dicts s xs")
  case (Inl e)
  then show ?thesis by simp
next
  case (Inr js)
  from book_dicts_ids[OF Inr] have "j_id ` set js = b_id ` set xs"
    by (metis set_map)
  then show ?thesis using Inr that by simp
qed

lemma api_books_ids: "j_id ` set (response_books (api_books s)) \<subseteq> b_id ` set (books s)"
  unfolding api_books_def by (rule response_books_book_dicts_ids) simp

lemma set_order_by: "set (order_by c d rows) = set rows"
  by (cases c) (simp_all add: sort_rows_def)

lemma api_books_sorting_ids:
  "j_id ` set (response_books (api_books_sorting extra args s)) \<subseteq> b_id ` set (books s)"
proof (cases "getattr_Book extra (args_get args ''sort'' ''title'') (Column Book_title)")
  case (Column c)
  have "j_id ` set (response_books
          (case book_dicts s (order_by c (args_get args ''order'' ''asc'' = ''desc'') (books s)) of
             Inl e \<Rightarrow> Inl e | Inr js \<Rightarrow> Inr (JsonBooks js)))
        \<subseteq> b_id ` set (order_by c (args_get args ''order'' ''asc'' = ''desc'') (books s))"
    by (rule response_books_book_dicts_ids) simp
  then show ?thesis using Column by (simp add: api_books_sorting_def set_order_by Let_def)
next
  case (NonColumn na)
  then show ?thesis by (cases na) (simp_all add: api_books_sorting_def)
qed

lemma paginate_items_subset:
  "paginate page per_page m e rows = Inr pg \<Longrightarrow> set (pg_items pg) \<subseteq> set rows"
  by (auto simp: paginate_def Let_def split: sum.splits if_splits prod.splits
           dest!: set_take_subset[THEN subsetD] set_drop_subset[THEN subsetD])

lemma books_page_ids:
  "j_id ` set (response_books (books_page page per_page s)) \<subseteq> b_id ` set (books s)"
proof (cases "paginate page per_page None True (books s)")
  case (Inl e)
  then show ?thesis by (simp add: books_page_def)
next
  case (Inr pg)
  have "j_id ` set (response_books
          (case book_dicts s (pg_items pg) of
             Inl e \<Rightarrow> Inl e | Inr js \<Rightarrow> Inr (JsonPage (pg_total pg) (pages pg) js)))
        \<subseteq> b_id ` set (pg_items pg)"
    by (rule response_books_book_dicts_ids) simp
  moreover have "b_id ` set (pg_items pg) \<subseteq> b_id ` set (books s)"
    using paginate_items_subset[OF Inr] by blast
  ultimately show ?thesis using Inr by (simp add: books_page_def)
qed

lemma Book_get_None_iff: "Book_get s i = None \<longleftrightarrow> i \<notin> b_id ` set (books s)"
  by (auto simp: Book_get_def find_None_iff)

text \<open>
  C1. In a store whose primary keys are unique, \<^verbatim>\<open>GET /delete-author/{id}\<close> on an
  existing Author succeeds; afterwards the Author is gone, no Book has that
  \<^verbatim>\<open>author_id\<close>, and the id of every Book that had it is found by no read: not by
  \<^verbatim>\<open>Book.query.get\<close>, not in the table, and in no answer of \<^verbatim>\<open>/api/books\<close>, of the
  paginated listing or of the sorted listing. The Books of other Authors stay.
\<close>

theorem delete_author_cascades:
  assumes "pk_unique s" and "Author_get s i = Some a"
  shows "\<exists>r s'. delete_author i s = Inr (r, s')
     \<and> Author_get s' i = None
     \<and> (\<forall>b\<in>set (books s'). b_author_id b \<noteq> IntCell i)
     \<and> (\<forall>b\<in>set (books s). b_author_id b = IntCell i \<longrightarrow>
           Book_get s' (b_id b) = None
         \<and> b_id b \<notin> b_id ` set (books s')
         \<and> b_id b \<notin> j_id ` set (response_books (api_books s'))
         \<and> (\<forall>page per_page. b_id b \<notin> j_id ` set (response_books (books_page page per_page s')))
         \<and> (\<forall>P args. b_id b \<notin> j_id ` set (response_books (api_books_paginated P args s')))
         \<and> (\<forall>extra args. b_id b \<notin> j_id ` set (response_books (api_books_sorting extra args s'))))
     \<and> (\<forall>b\<in>set (books s). b_author_id b \<noteq> IntCell i \<longrightarrow> b \<in> set (books s'))"
proof -
  let ?s' = "s\<lparr>authors := filter (\<lambda>x. a_id x \<noteq> i) (authors s),
               books := filter (\<lambda>b. b_author_id b \<noteq> IntCell i) (books s)\<rparr>"
  have id: "a_id a = i" using assms(2) by (rule Author_get_id)
  have run: "delete_author i s = Inr (Redirect ''index'' ''Author deleted successfully!'', ?s')"
    using assms(2) id by (simp add: delete_author_def Author_get_or_404_def)
  have gone: "Author_get ?s' i = None"
    by (auto simp: Author_get_None_iff)
  have rest: "\<forall>b\<in>set (books ?s'). b_author_id b \<noteq> IntCell i" by simp
  have kept: "\<forall>b\<in>set (books s). b_author_id b \<noteq> IntCell i \<longrightarrow> b \<in> set (books ?s')" by simp
  have dist: "distinct (map b_id (books s))" using assms(1) by (simp add: pk_unique_def)
  have ids: "b_id b \<notin> b_id ` set (books ?s')" if "b \<in> set (books s)" "b_author_id b = IntCell i" for b
  proof
    assume "b_id b \<in> b_id ` set (books ?s')"
    then obtain b' where b': "b' \<in> set (books s)" "b_author_id b' \<noteq> IntCell i" "b_id b' = b_id b"
      by auto
    from dist have "inj_on b_id (set (books s))" by (simp add: distinct_map)
    with b' that have "b' = b" by (auto dest: inj_onD)
    with b' that show False by simp
  qed
  have reads: "Book_get ?s' (b_id b) = None
         \<and> b_id b \<notin> b_id ` set (books ?s')
         \<and> b_id b \<notin> j_id ` set (response_books (api_books ?s'))
         \<and> (\<forall>page per_page. b_id b \<notin> j_id ` set (response_books (books_page page per_page ?s')))
         \<and> (\<forall>P args. b_id b \<notin> j_id ` set (response_books (api_books_paginated P args ?s')))
         \<and> (\<forall>extra args. b_id b \<notin> j_id ` set (response_books (api_books_sorting extra args ?s')))"
    if b: "b \<in> set (books s)" "b_author_id b = IntCell i" for b
  proof (intro conjI allI)
    note n = ids[OF b]
    show "Book_get ?s' (b_id b) = None" using n by (simp only: Book_get_None_iff not_False_eq_True)
    show "b_id b \<notin> b_id ` set (books ?s')" by (rule n)
    show "b_id b \<notin> j_id ` set (response_books (api_books ?s'))"
      using n api_books_ids[of ?s'] by (rule contra_subsetD[rotated])
    show "b_id b \<notin> j_id ` set (response_books (books_page page per_page ?s'))" for page per_page
      using n books_page_ids[of page per_page ?s'] by (rule contra_subsetD[rotated])
    show "b_id b \<notin> j_id ` set (response_books (api_books_paginated P args ?s'))" for P args
      unfolding api_books_paginated_def
      using n books_page_ids[of _ _ ?s'] by (rule contra_subsetD[rotated])
    show "b_id b \<notin> j_id ` set (response_books (api_books_sorting extra args ?s'))" for extra args
      using n api_books_sorting_ids[of extra args ?s'] by (rule contra_subsetD[rotated])
  qed
  show ?thesis
  proof (intro exI conjI)
    show "delete_author i s = Inr (Redirect ''index'' ''Author deleted successfully!'', ?s')"
      by (rule run)
    show "Author_get ?s' i = None" by (rule gone)
    show "\<forall>b\<in>set (books ?s'). b_author_id b \<noteq> IntCell i" by (rule rest)
    show "\<forall>b\<in>set (books s). b_author_id b = IntCell i \<longrightarrow>
           Book_get ?s' (b_id b) = None
         \<and> b_id b \<notin> b_id ` set (books ?s')
         \<and> b_id b \<notin> j_id ` set (response_books (api_books ?s'))
         \<and> (\<forall>page per_page. b_id b \<notin> j_id ` set (response_books (books_page page per_page ?s')))
         \<and> (\<forall>P args. b_id b \<notin> j_id ` set (response_books (api_books_paginated P args ?s')))
         \<and> (\<forall>extra args. b_id b \<notin> j_id ` set (response_books (api_books_sorting extra args ?s')))"
      using reads by (intro ballI impI)
    show "\<forall>b\<in>set (books s). b_author_id b \<noteq> IntCell i \<longrightarrow> b \<in> set (books ?s')" by (rule kept)
  qed
qed


theorem delete_author_cascades_witness:
  "pk_unique \<lparr>authors = [\<lparr>a_id = 1, a_name = ''N'', a_bio = None, a_city = None\<rparr>,
                          \<lparr>a_id = 2, a_name = ''M'', a_bio = None, a_city = None\<rparr>],
               books = [\<lparr>b_id = 1, b_title = ''T'', b_isbn = None, b_author_id = IntCell 1\<rparr>,
                        \<lparr>b_id = 2, b_title = ''U'', b_isbn = None, b_author_id = IntCell 2\<rparr>,
                        \<lparr>b_id = 3, b_title = ''V'', b_isbn = None, b_author_id = IntCell 1\<rparr>],
               foreign_keys = False\<rparr>
   \<and> Author_get \<lparr>authors = [\<lparr>a_id = 1, a_name = ''N'', a_bio = None, a_city = None\<rparr>,
                          \<lparr>a_id = 2, a_name = ''M'', a_bio = None, a_city = None\<rparr>],
               books = [\<lparr>b_id = 1, b_title = ''T'', b_isbn = None, b_author_id = IntCell 1\<rparr>,
                        \<lparr>b_id = 2, b_title = ''U'', b_isbn = None, b_author_id = IntCell 2\<rparr>,
                        \<lparr>b_id = 3, b_title = ''V'', b_isbn = None, b_author_id = IntCell 1\<rparr>],
               foreign_keys = False\<rparr> 1
       = Some \<lparr>a_id = 1, a_name = ''N'', a_bio = None, a_city = None\<rparr>
   \<and> delete_author 1
         \<lparr>authors = [\<lparr>a_id = 1, a_name = ''N'', a_bio = None, a_city = None\<rparr>,
                          \<lparr>a_id = 2, a_name = ''M'', a_bio = None, a_city = None\<rparr>],
               books = [\<lparr>b_id = 1, b_title = ''T'', b_isbn = None, b_author_id = IntCell 1\<rparr>,
                        \<lparr>b_id = 2, b_title = ''U'', b_isbn = None, b_author_id = IntCell 2\<rparr>,
                        \<lparr>b_id = 3, b_title = ''V'', b_isbn = None, b_author_id = IntCell 1\<rparr>],
               foreign_keys = False\<rparr>
       = Inr (Redirect ''index'' ''Author deleted successfully!'',
              \<lparr>authors = [\<lparr>a_id = 2, a_name = ''M'', a_bio = None, a_city = None\<rparr>],
                books = [\<lparr>b_id = 2, b_title = ''U'', b_isbn = None, b_author_id = IntCell 2\<rparr>],
                foreign_keys = False\<rparr>)"
  using delete_author_cascades
    [of "\<lparr>authors = [\<lparr>a_id = 1, a_name = ''N'', a_bio = None, a_city = None\<rparr>,
                          \<lparr>a_id = 2, a_name = ''M'', a_bio = None, a_city = None\<rparr>],
               books = [\<lparr>b_id = 1, b_title = ''T'', b_isbn = None, b_author_id = IntCell 1\<rparr>,
                        \<lparr>b_id = 2, b_title = ''U'', b_isbn = None, b_author_id = IntCell 2\<rparr>,
                        \<lparr>b_id = 3, b_title = ''V'', b_isbn = None, b_author_id = IntCell 1\<rparr>],
               foreign_keys = False\<rparr>" 1 "\<lparr>a_id = 1, a_name = ''N'', a_bio = None, a_city = None\<rparr>"]
  by (simp add: pk_unique_def Author_get_def delete_author_def Author_get_or_404_def)

section \<open>Adding a Book through the API\<close>

lemma api_add_book_keys:
  assumes "data ''title'' = Some tv" "data ''isbn'' = Some iv" "data ''author_id'' = Some av"
  shows "api_add_book P data s =
           (case commit_new_book P tv iv av s of
              Inl e \<Rightarrow> Inl e | Inr s' \<Rightarrow> Inr (JsonSuccess, s'))"
  using assms by (simp add: api_add_book_def dict_item_def)



lemmas example_defs =
  example_platform_def digits_value_def digits_value64_def is_digit_def digit_val_def int64_def



section \<open>Updating a Book\<close>

lemma update_book_found:
  assumes "Book_get s i = Some b"
  shows "update_book P i form s =
     (case form_item form ''title'' of
        Inl e \<Rightarrow> Inl e
      | Inr t \<Rightarrow>
          (case form_item form ''isbn'' of
             Inl e \<Rightarrow> Inl e
           | Inr isbn \<Rightarrow>
               (case form_int P form ''author_id'' of
                  Inl e \<Rightarrow> Inl e
                | Inr aid \<Rightarrow>
                    if \<not> int64 aid then Inl OverflowError
                    else if b_author_id b \<noteq> IntCell aid \<and> fk_violation s (IntCell aid)
                      then Inl IntegrityError
                    else Inr (Redirect ''index'' ''Book updated successfully!'',
                      s\<lparr>books := map (\<lambda>x. if b_id x = i
                            then x\<lparr>b_title := t, b_isbn := Some isbn, b_author_id := IntCell aid\<rparr>
                            else x) (books s)\<rparr>))))"
  using assms Book_get_id[OF assms]
  by (auto simp: update_book_def Book_get_or_404_def split: sum.splits)

text \<open>
  C7. \<^verbatim>\<open>POST /update-book/{id}\<close> fails with \<open>NotFound\<close> when there is no such Book
  (with \<open>OverflowError\<close> when the id is outside 64 bits and cannot be looked up). When
  the Book exists: a form with \<^verbatim>\<open>title\<close>, \<^verbatim>\<open>isbn\<close> and an \<^verbatim>\<open>author_id\<close> that \<^verbatim>\<open>int()\<close>
  reads as an integer within 64 bits (naming an existing Author when the engine enforces
  the foreign key) replaces all three fields; a form whose \<^verbatim>\<open>author_id\<close> \<^verbatim>\<open>int()\<close>
  refuses fails with \<open>ValueError\<close>, one whose \<^verbatim>\<open>author_id\<close> is outside 64 bits with
  \<open>OverflowError\<close>; a form without one of the three fields fails with the missing-key
  error for it, and nothing is retained silently.
\<close>

theorem update_book_replaces_or_fails:
  "(Book_get s i = None \<and> int64 i \<longrightarrow> update_book P i form s = Inl NotFound)
   \<and> (Book_get s i = None \<and> \<not> int64 i \<longrightarrow> update_book P i form s = Inl OverflowError)
   \<and> (Book_get s i = Some b \<and> form ''title'' = Some t \<and> form ''isbn'' = Some isbn
        \<and> form ''author_id'' = Some v \<and> py_int P v = Some aid \<and> int64 aid
        \<and> \<not> fk_violation s (IntCell aid) \<longrightarrow>
        (\<exists>r s'. update_book P i form s = Inr (r, s')
           \<and> Book_get s' i
               = Some \<lparr>b_id = i, b_title = t, b_isbn = Some isbn, b_author_id = IntCell aid\<rparr>))
   \<and> (Book_get s i = Some b \<and> form ''title'' = Some t \<and> form ''isbn'' = Some isbn
        \<and> form ''author_id'' = Some v \<and> py_int P v = None \<longrightarrow>
        update_book P i form s = Inl ValueError)
   \<and> (Book_get s i = Some b \<and> form ''title'' = Some t \<and> form ''isbn'' = Some isbn
        \<and> form ''author_id'' = Some v \<and> py_int P v = Some aid \<and> \<not> int64 aid \<longrightarrow>
        update_book P i form s = Inl OverflowError)
   \<and> (Book_get s i = Some b
        \<and> (form ''title'' = None \<or> form ''isbn'' = None \<or> form ''author_id'' = None) \<longrightarrow>
        (\<exists>k. update_book P i form s = Inl (BadRequestKeyError k) \<and> form k = None))"
proof (intro conjI impI)
  assume "Book_get s i = None \<and> int64 i"
  then show "update_book P i form s = Inl NotFound"
    by (simp add: update_book_def Book_get_or_404_def)
next
  assume "Book_get s i = None \<and> \<not> int64 i"
  then show "update_book P i form s = Inl OverflowError"
    by (simp add: update_book_def Book_get_or_404_def)
next
  assume h: "Book_get s i = Some b \<and> form ''title'' = Some t \<and> form ''isbn'' = Some isbn
        \<and> form ''author_id'' = Some v \<and> py_int P v = Some aid \<and> int64 aid
        \<and> \<not> fk_violation s (IntCell aid)"
  let ?g = "\<lambda>x. x\<lparr>b_title := t, b_isbn := Some isbn, b_author_id := IntCell aid\<rparr>"
  let ?s' = "s\<lparr>books := map (\<lambda>x. if b_id x = i then ?g x else x) (books s)\<rparr>"
  have run: "update_book P i form s = Inr (Redirect ''index'' ''Book updated successfully!'', ?s')"
    using h by (simp add: update_book_found form_item_def form_int_def)
  have "find (\<lambda>x. b_id x = i) (map (\<lambda>x. if b_id x = i then ?g x else x) (books s))
        = map_option ?g (find (\<lambda>x. b_id x = i) (books s))"
    by (rule find_map_update) simp
  then have "Book_get ?s' i = Some (?g b)"
    using h by (simp add: Book_get_def)
  moreover have "b_id b = i" using h Book_get_id by blast
  ultimately have "Book_get ?s' i
      = Some \<lparr>b_id = i, b_title = t, b_isbn = Some isbn, b_author_id = IntCell aid\<rparr>"
    by (cases b) simp
  with run show "\<exists>r s'. update_book P i form s = Inr (r, s')
           \<and> Book_get s' i
               = Some \<lparr>b_id = i, b_title = t, b_isbn = Some isbn, b_author_id = IntCell aid\<rparr>"
    by blast
next
  assume "Book_get s i = Some b \<and> form ''title'' = Some t \<and> form ''isbn'' = Some isbn
        \<and> form ''author_id'' = Some v \<and> py_int P v = None"
  then show "update_book P i form s = Inl ValueError"
    by (simp add: update_book_found form_item_def form_int_def)
next
  assume "Book_get s i = Some b \<and> form ''title'' = Some t \<and> form ''isbn'' = Some isbn
        \<and> form ''author_id'' = Some v \<and> py_int P v = Some aid \<and> \<not> int64 aid"
  then show "update_book P i form s = Inl OverflowError"
    by (simp add: update_book_found form_item_def form_int_def)
next
  assume h: "Book_get s i = Some b
        \<and> (form ''title'' = None \<or> form ''isbn'' = None \<or> form ''author_id'' = None)"
  then have b: "Book_get s i = Some b" by simp
  show "\<exists>k. update_book P i form s = Inl (BadRequestKeyError k) \<and> form k = None"
  proof (cases "form ''title''")
    case None
    then have "update_book P i form s = Inl (BadRequestKeyError ''title'')"
      by (simp add: update_book_found[OF b] form_item_def)
    with None show ?thesis by blast
  next
    case t: (Some t')
    show ?thesis
    proof (cases "form ''isbn''")
      case None
      then have "update_book P i form s = Inl (BadRequestKeyError ''isbn'')"
        using t by (simp add: update_book_found[OF b] form_item_def)
      with None show ?thesis by blast
    next
      case (Some i')
      with t h have n: "form ''author_id'' = None" by simp
      then have "update_book P i form s = Inl (BadRequestKeyError ''author_id'')"
        using t Some by (simp add: update_book_found[OF b] form_item_def form_int_def)
      with n show ?thesis by blast
    qed
  qed
qed

text \<open>The three fields alone do not make the update succeed: an author_id that is no integer.\<close>

theorem update_book_non_integer_author_id:
  "update_book example_platform 1
     [''title'' \<mapsto> ''T2'', ''isbn'' \<mapsto> ''I2'', ''author_id'' \<mapsto> ''abc'']
     \<lparr>authors = [\<lparr>a_id = 1, a_name = ''N'', a_bio = None, a_city = None\<rparr>],
      books = [\<lparr>b_id = 1, b_title = ''T'', b_isbn = Some ''I'', b_author_id = IntCell 1\<rparr>],
      foreign_keys = False\<rparr>
   = Inl ValueError"
  by (simp add: update_book_def Book_get_or_404_def Book_get_def form_item_def form_int_def
        example_defs)

theorem update_book_replaces_or_fails_witness:
  "update_book example_platform 7 Map.empty create_all = Inl NotFound
   \<and> update_book example_platform 9223372036854775808 Map.empty create_all = Inl OverflowError
   \<and> update_book example_platform 1
       [''title'' \<mapsto> ''T2'', ''isbn'' \<mapsto> ''I2'', ''author_id'' \<mapsto> ''2'']
     \<lparr>authors = [\<lparr>a_id = 1, a_name = ''N'', a_bio = None, a_city = None\<rparr>,
                 \<lparr>a_id = 2, a_name = ''M'', a_bio = None, a_city = None\<rparr>],
      books = [\<lparr>b_id = 1, b_title = ''T'', b_isbn = Some ''I'', b_author_id = IntCell 1\<rparr>],
      foreign_keys = False\<rparr>
     = Inr (Redirect ''index'' ''Book updated successfully!'',
     \<lparr>authors = [\<lparr>a_id = 1, a_name = ''N'', a_bio = None, a_city = None\<rparr>,
                 \<lparr>a_id = 2, a_name = ''M'', a_bio = None, a_city = None\<rparr>],
      books = [\<lparr>b_id = 1, b_title = ''T2'', b_isbn = Some ''I2'', b_author_id = IntCell 2\<rparr>],
      foreign_keys = False\<rparr>)
   \<and> update_book example_platform 1
       [''title'' \<mapsto> ''T2'', ''isbn'' \<mapsto> ''I2'', ''author_id'' \<mapsto> ''x'']
     \<lparr>authors = [\<lparr>a_id = 1, a_name = ''N'', a_bio = None, a_city = None\<rparr>,
                 \<lparr>a_id = 2, a_name = ''M'', a_bio = None, a_city = None\<rparr>],
      books = [\<lparr>b_id = 1, b_title = ''T'', b_isbn = Some ''I'', b_author_id = IntCell 1\<rparr>],
      foreign_keys = False\<rparr>
     = Inl ValueError
   \<and> update_book example_platform 1
       [''title'' \<mapsto> ''T2'', ''isbn'' \<mapsto> ''I2'', ''author_id'' \<mapsto> ''9223372036854775808'']
     \<lparr>authors = [\<lparr>a_id = 1, a_name = ''N'', a_bio = None, a_city = None\<rparr>,
                 \<lparr>a_id = 2, a_name = ''M'', a_bio = None, a_city = None\<rparr>],
      books = [\<lparr>b_id = 1, b_title = ''T'', b_isbn = Some ''I'', b_author_id = IntCell 1\<rparr>],
      foreign_keys = False\<rparr>
     = Inl OverflowError
   \<and> update_book example_platform 1 [''title'' \<mapsto> ''T2'', ''author_id'' \<mapsto> ''2'']
     \<lparr>authors = [\<lparr>a_id = 1, a_name = ''N'', a_bio = None, a_city = None\<rparr>,
                 \<lparr>a_id = 2, a_name = ''M'', a_bio = None, a_city = None\<rparr>],
      books = [\<lparr>b_id = 1, b_title = ''T'', b_isbn = Some ''I'', b_author_id = IntCell 1\<rparr>],
      foreign_keys = False\<rparr>
     = Inl (BadRequestKeyError ''isbn'')"
proof -
  let ?st = "\<lparr>authors = [\<lparr>a_id = 1, a_name = ''N'', a_bio = None, a_city = None\<rparr>,
                 \<lparr>a_id = 2, a_name = ''M'', a_bio = None, a_city = None\<rparr>],
      books = [\<lparr>b_id = 1, b_title = ''T'', b_isbn = Some ''I'', b_author_id = IntCell 1\<rparr>],
      foreign_keys = False\<rparr>"
  let ?b = "\<lparr>b_id = 1, b_title = ''T'', b_isbn = Some ''I'', b_author_id = IntCell 1\<rparr>"
  have g: "Book_get ?st 1 = Some ?b" by (simp add: Book_get_def)
  have n: "Book_get create_all 7 = None" "Book_get create_all 9223372036854775808 = None"
    by (simp_all add: Book_get_def create_all_def)
  have w1: "update_book example_platform 7 Map.empty create_all = Inl NotFound"
    using update_book_replaces_or_fails [of create_all 7 example_platform Map.empty] n
    by (simp add: int64_def)
  have w2: "update_book example_platform 9223372036854775808 Map.empty create_all = Inl OverflowError"
    using update_book_replaces_or_fails [of create_all 9223372036854775808 example_platform Map.empty] n
    by (simp add: int64_def)
  have w3: "\<exists>r s'. update_book example_platform 1
       [''title'' \<mapsto> ''T2'', ''isbn'' \<mapsto> ''I2'', ''author_id'' \<mapsto> ''2''] ?st = Inr (r, s')
       \<and> Book_get s' 1
           = Some \<lparr>b_id = 1, b_title = ''T2'', b_isbn = Some ''I2'', b_author_id = IntCell 2\<rparr>"
    using update_book_replaces_or_fails
      [of ?st 1 example_platform "[''title'' \<mapsto> ''T2'', ''isbn'' \<mapsto> ''I2'', ''author_id'' \<mapsto> ''2'']"
          ?b "''T2''" "''I2''" "''2''" 2] g
    by (simp add: example_defs fk_violation_def)
  have w4: "update_book example_platform 1
       [''title'' \<mapsto> ''T2'', ''isbn'' \<mapsto> ''I2'', ''author_id'' \<mapsto> ''x''] ?st = Inl ValueError"
    using update_book_replaces_or_fails
      [of ?st 1 example_platform "[''title'' \<mapsto> ''T2'', ''isbn'' \<mapsto> ''I2'', ''author_id'' \<mapsto> ''x'']"
          ?b "''T2''" "''I2''" "''x''"] g
    by (simp add: example_defs)
  have w5: "update_book example_platform 1
       [''title'' \<mapsto> ''T2'', ''isbn'' \<mapsto> ''I2'', ''author_id'' \<mapsto> ''9223372036854775808''] ?st
       = Inl OverflowError"
    using update_book_replaces_or_fails
      [of ?st 1 example_platform
          "[''title'' \<mapsto> ''T2'', ''isbn'' \<mapsto> ''I2'', ''author_id'' \<mapsto> ''9223372036854775808'']"
          ?b "''T2''" "''I2''" "''9223372036854775808''" 9223372036854775808] g
    by (simp add: example_defs)
  have w6: "update_book example_platform 1 [''title'' \<mapsto> ''T2'', ''author_id'' \<mapsto> ''2''] ?st
       = Inl (BadRequestKeyError ''isbn'')"
    using update_book_replaces_or_fails
      [of ?st 1 example_platform "[''title'' \<mapsto> ''T2'', ''author_id'' \<mapsto> ''2'']" ?b] g
    by (simp add: update_book_found[OF g] form_item_def)
  have w3': "update_book example_platform 1
       [''title'' \<mapsto> ''T2'', ''isbn'' \<mapsto> ''I2'', ''author_id'' \<mapsto> ''2''] ?st
     = Inr (Redirect ''index'' ''Book updated successfully!'',
     \<lparr>authors = [\<lparr>a_id = 1, a_name = ''N'', a_bio = None, a_city = None\<rparr>,
                 \<lparr>a_id = 2, a_name = ''M'', a_bio = None, a_city = None\<rparr>],
      books = [\<lparr>b_id = 1, b_title = ''T2'', b_isbn = Some ''I2'', b_author_id = IntCell 2\<rparr>],
      foreign_keys = False\<rparr>)"
    using w3 by (simp add: update_book_found[OF g] form_item_def form_int_def example_defs
                   fk_violation_def)
  show ?thesis using w1 w2 w3' w4 w5 w6 by simp
qed

section \<open>Listing Books\<close>

lemma list_all2_memD:
  "list_all2 R xs ys \<Longrightarrow> x \<in> set xs \<Longrightarrow> \<exists>y\<in>set ys. R x y"
  by (induction xs ys rule: list_all2_induct) auto

lemma api_books_ref_integrity:
  assumes "ref_integrity s"
  shows "\<exists>js. api_books s = Inr (JsonBooks js)
           \<and> list_all2 (\<lambda>b j. book_dict s b = Inr j) (books s) js"
proof -
  from assms have "\<forall>b\<in>set (books s). author_of s (b_author_id b) \<noteq> None"
    by (simp add: ref_integrity_def list_all_iff)
  then obtain js where js: "book_dicts s (books s) = Inr js"
    using book_dicts_total by blast
  then have "list_all2 (\<lambda>b j. book_dict s b = Inr j) (books s) js"
    by (simp only: book_dicts_Inr_iff)
  with js show ?thesis by (simp add: api_books_def)
qed

text \<open>
  In a store with referential integrity, \<^verbatim>\<open>GET /api/books\<close> answers with status 200
  and one object for every Book, in storage order, carrying the Book's id, title and
  isbn and the name of the Author its \<^verbatim>\<open>author_id\<close> names.
\<close>

lemma api_books_lists_every_book:
  assumes "ref_integrity s"
  shows "\<exists>js. api_books s = Inr (JsonBooks js) \<and> status (JsonBooks js) = 200
         \<and> list_all2 (\<lambda>b j. j_id j = b_id b \<and> j_title j = b_title b \<and> j_isbn j = b_isbn b
               \<and> (\<exists>a. author_of s (b_author_id b) = Some a \<and> j_author j = a_name a))
             (books s) js"
proof -
  from assms obtain js where js: "api_books s = Inr (JsonBooks js)"
    and all: "list_all2 (\<lambda>b j. book_dict s b = Inr j) (books s) js"
    using api_books_ref_integrity by blast
  have "list_all2 (\<lambda>b j. j_id j = b_id b \<and> j_title j = b_title b \<and> j_isbn j = b_isbn b
               \<and> (\<exists>a. author_of s (b_author_id b) = Some a \<and> j_author j = a_name a))
             (books s) js"
    using all by (rule list_all2_mono) (auto simp: book_dict_Inr)
  with js show ?thesis by auto
qed

text \<open>
  After \<^verbatim>\<open>POST /add-author\<close> and then \<^verbatim>\<open>POST /api/add-book\<close> with the new Author's id,
  in a store with referential integrity, the array has the new Book with that Author's
  name.
\<close>

lemma api_books_after_add_author_and_book:
  assumes ri: "ref_integrity s" and nm: "form ''name'' = Some nm"
    and s1: "add_author form s = Inr (r1, s1)"
    and t: "data ''title'' = Some (PStr t)" and i: "data ''isbn'' = Some iv" "bindable iv"
    and a: "data ''author_id'' = Some (PInt (next_id (map a_id (authors s))))"
           "int64 (next_id (map a_id (authors s)))"
  shows "\<exists>s2 js. api_add_book P data s1 = Inr (JsonSuccess, s2)
         \<and> api_books s2 = Inr (JsonBooks js)
         \<and> \<lparr>j_id = next_id (map b_id (books s)), j_title = t, j_isbn = text_affinity iv,
             j_author = nm\<rparr> \<in> set js"
proof -
  let ?aid = "next_id (map a_id (authors s))"
  let ?new = "\<lparr>a_id = ?aid, a_name = nm, a_bio = form ''bio'', a_city = form ''city''\<rparr>"
  let ?nb = "\<lparr>b_id = next_id (map b_id (books s)), b_title = t, b_isbn = text_affinity iv,
              b_author_id = IntCell ?aid\<rparr>"
  have s1eq: "s1 = insert_author nm (form ''bio'') (form ''city'') s"
    using nm s1 by (auto simp: add_author_def form_item_def)
  have get1: "Author_get s1 ?aid = Some ?new"
    unfolding s1eq by (rule Author_get_insert_author)
  have books1: "books s1 = books s" and authors1: "authors s1 = authors s @ [?new]"
    by (simp_all add: s1eq insert_author_def)
  let ?s2 = "s1\<lparr>books := books s1 @ [?nb]\<rparr>"
  have run: "api_add_book P data s1 = Inr (JsonSuccess, ?s2)"
    using t i a get1
    by (simp add: api_add_book_keys commit_new_book_def insert_book_def fk_violation_def books1)
  have get2: "Author_get ?s2 ?aid = Some ?new"
    using get1 by (simp add: Author_get_def)
  have "ref_integrity ?s2"
    using ri by (auto simp: ref_integrity_iff authors1 books1)
  then obtain js where js: "api_books ?s2 = Inr (JsonBooks js)"
    and all: "list_all2 (\<lambda>b j. book_dict ?s2 b = Inr j) (books ?s2) js"
    using api_books_ref_integrity by blast
  have "?nb \<in> set (books ?s2)" by simp
  with all obtain j where j: "j \<in> set js" "book_dict ?s2 ?nb = Inr j"
    by (blast dest: list_all2_memD)
  from j(2) get2 have "j = \<lparr>j_id = next_id (map b_id (books s)), j_title = t,
      j_isbn = text_affinity iv, j_author = nm\<rparr>"
    by (simp add: book_dict_def)
  with j(1) run js show ?thesis by blast
qed

text \<open>
  C4. \<^verbatim>\<open>GET /api/books\<close> does not answer on every store. From the empty database, an
  Author and a Book of that Author give a store on which the listing is answered with
  the Book and the Author's name; one more \<^verbatim>\<open>POST /api/add-book\<close>, with an
  \<^verbatim>\<open>author_id\<close> that names no Author, is committed as well (the foreign key is not
  enforced), and on the store it leaves the listing fails with \<open>AttributeError\<close>
  (status 500).
\<close>

theorem api_books_fails_on_book_without_author:
  "add_author [''name'' \<mapsto> ''N''] create_all
     = Inr (Redirect ''index'' ''Author added successfully!'',
            \<lparr>authors = [\<lparr>a_id = 1, a_name = ''N'', a_bio = None, a_city = None\<rparr>],
              books = [], foreign_keys = False\<rparr>)
   \<and> api_add_book P [''title'' \<mapsto> PStr ''T'', ''isbn'' \<mapsto> PNone, ''author_id'' \<mapsto> PInt 1]
        \<lparr>authors = [\<lparr>a_id = 1, a_name = ''N'', a_bio = None, a_city = None\<rparr>],
          books = [], foreign_keys = False\<rparr>
     = Inr (JsonSuccess,
            \<lparr>authors = [\<lparr>a_id = 1, a_name = ''N'', a_bio = None, a_city = None\<rparr>],
              books = [\<lparr>b_id = 1, b_title = ''T'', b_isbn = None, b_author_id = IntCell 1\<rparr>],
              foreign_keys = False\<rparr>)
   \<and> api_books
        \<lparr>authors = [\<lparr>a_id = 1, a_name = ''N'', a_bio = None, a_city = None\<rparr>],
          books = [\<lparr>b_id = 1, b_title = ''T'', b_isbn = None, b_author_id = IntCell 1\<rparr>],
          foreign_keys = False\<rparr>
     = Inr (JsonBooks [\<lparr>j_id = 1, j_title = ''T'', j_isbn = None, j_author = ''N''\<rparr>])
   \<and> api_add_book P [''title'' \<mapsto> PStr ''U'', ''isbn'' \<mapsto> PNone, ''author_id'' \<mapsto> PInt 2]
        \<lparr>authors = [\<lparr>a_id = 1, a_name = ''N'', a_bio = None, a_city = None\<rparr>],
          books = [\<lparr>b_id = 1, b_title = ''T'', b_isbn = None, b_author_id = IntCell 1\<rparr>],
          foreign_keys = False\<rparr>
     = Inr (JsonSuccess,
            \<lparr>authors = [\<lparr>a_id = 1, a_name = ''N'', a_bio = None, a_city = None\<rparr>],
              books = [\<lparr>b_id = 1, b_title = ''T'', b_isbn = None, b_author_id = IntCell 1\<rparr>,
                       \<lparr>b_id = 2, b_title = ''U'', b_isbn = None, b_author_id = IntCell 2\<rparr>],
              foreign_keys = False\<rparr>)
   \<and> reachable P False
        \<lparr>authors = [\<lparr>a_id = 1, a_name = ''N'', a_bio = None, a_city = None\<rparr>],
          books = [\<lparr>b_id = 1, b_title = ''T'', b_isbn = None, b_author_id = IntCell 1\<rparr>,
                   \<lparr>b_id = 2, b_title = ''U'', b_isbn = None, b_author_id = IntCell 2\<rparr>],
          foreign_keys = False\<rparr>
   \<and> api_books
        \<lparr>authors = [\<lparr>a_id = 1, a_name = ''N'', a_bio = None, a_city = None\<rparr>],
          books = [\<lparr>b_id = 1, b_title = ''T'', b_isbn = None, b_author_id = IntCell 1\<rparr>,
                   \<lparr>b_id = 2, b_title = ''U'', b_isbn = None, b_author_id = IntCell 2\<rparr>],
          foreign_keys = False\<rparr>
     = Inl AttributeError
   \<and> status_of debug AttributeError = Some 500"
proof -
  let ?s1 = "\<lparr>authors = [\<lparr>a_id = 1, a_name = ''N'', a_bio = None, a_city = None\<rparr>],
          books = [], foreign_keys = False\<rparr>"
  let ?s2 = "\<lparr>authors = [\<lparr>a_id = 1, a_name = ''N'', a_bio = None, a_city = None\<rparr>],
          books = [\<lparr>b_id = 1, b_title = ''T'', b_isbn = None, b_author_id = IntCell 1\<rparr>],
          foreign_keys = False\<rparr>"
  let ?s3 = "\<lparr>authors = [\<lparr>a_id = 1, a_name = ''N'', a_bio = None, a_city = None\<rparr>],
          books = [\<lparr>b_id = 1, b_title = ''T'', b_isbn = None, b_author_id = IntCell 1\<rparr>,
                   \<lparr>b_id = 2, b_title = ''U'', b_isbn = None, b_author_id = IntCell 2\<rparr>],
          foreign_keys = False\<rparr>"
  have r1: "add_author [''name'' \<mapsto> ''N''] \<lparr>authors = [], books = [], foreign_keys = False\<rparr>
      = Inr (Redirect ''index'' ''Author added successfully!'', ?s1)"
    by (simp add: add_author_def form_item_def insert_author_def next_id_def)
  have r2: "api_add_book P [''title'' \<mapsto> PStr ''T'', ''isbn'' \<mapsto> PNone, ''author_id'' \<mapsto> PInt 1] ?s1
      = Inr (JsonSuccess, ?s2)"
    by (simp add: api_add_book_def dict_item_def commit_new_book_def insert_book_def
          fk_violation_def next_id_def int64_def)
  have r3: "api_add_book P [''title'' \<mapsto> PStr ''U'', ''isbn'' \<mapsto> PNone, ''author_id'' \<mapsto> PInt 2] ?s2
      = Inr (JsonSuccess, ?s3)"
    by (simp add: api_add_book_def dict_item_def commit_new_book_def insert_book_def
          fk_violation_def next_id_def int64_def)
  have "reachable P False \<lparr>authors = [], books = [], foreign_keys = False\<rparr>"
    by (rule reachable.start)
  then have "reachable P False ?s1" using r1 by (rule reachable.by_add_author)
  then have "reachable P False ?s2" using r2 by (rule reachable.by_api_add_book)
  then have reach: "reachable P False ?s3" using r3 by (rule reachable.by_api_add_book)
  have l2: "api_books ?s2
      = Inr (JsonBooks [\<lparr>j_id = 1, j_title = ''T'', j_isbn = None, j_author = ''N''\<rparr>])"
    by (simp add: api_books_def book_dict_def Author_get_def)
  have l3: "api_books ?s3 = Inl AttributeError"
    by (simp add: api_books_def book_dict_def Author_get_def)
  show ?thesis
    using r1 r2 r3 reach l2 l3 by (simp add: create_all_def)
qed

section \<open>Pages\<close>

lemma page_count_ceiling:
  "page_count p rows = \<lceil>real (length rows) / real_of_int p\<rceil>"
  by (simp add: page_count_def pages_def)

lemma page_count_less_iff:
  assumes "1 \<le> p"
  shows "page_count p rows < k \<longleftrightarrow> int (length rows) \<le> (k - 1) * p"
proof -
  have p: "0 < real_of_int p" using assms by simp
  have "page_count p rows < k \<longleftrightarrow> \<lceil>real (length rows) / real_of_int p\<rceil> \<le> k - 1"
    by (simp add: page_count_ceiling)
  also have "\<dots> \<longleftrightarrow> real (length rows) / real_of_int p \<le> real_of_int (k - 1)"
    by (rule ceiling_le_iff)
  also have "\<dots> \<longleftrightarrow> real (length rows) \<le> real_of_int (k - 1) * real_of_int p"
    using p by (rule pos_divide_le_eq)
  also have "\<dots> \<longleftrightarrow> real_of_int (int (length rows)) \<le> real_of_int ((k - 1) * p)"
    by simp
  also have "\<dots> \<longleftrightarrow> int (length rows) \<le> (k - 1) * p"
    by (rule of_int_le_iff)
  finally show ?thesis .
qed

lemma page_count_nonneg: "1 \<le> p \<Longrightarrow> 0 \<le> page_count p rows"
  using page_count_less_iff[of p rows 0] by (smt (verit) mult_nonneg_nonneg of_nat_0_le_iff zero_le_mult_iff)

lemma prepare_page_args_ok:
  "1 \<le> k \<Longrightarrow> 1 \<le> p \<Longrightarrow> prepare_page_args k p None True = Inr (k, p)"
  by (simp add: prepare_page_args_def)

lemma prepare_page_args_bad:
  "k < 1 \<or> p < 1 \<Longrightarrow> prepare_page_args k p None True = Inl NotFound"
  by (auto simp: prepare_page_args_def)

lemma items_empty_iff:
  assumes "1 \<le> p" "1 \<le> k"
  shows "take (nat p) (drop (nat ((k - 1) * p)) rows) = [] \<longleftrightarrow> int (length rows) \<le> (k - 1) * p"
proof -
  have nn: "0 \<le> (k - 1) * p" using assms by simp
  have "take (nat p) (drop (nat ((k - 1) * p)) rows) = [] \<longleftrightarrow> length rows \<le> nat ((k - 1) * p)"
    using assms by (auto simp: take_eq_Nil)
  also have "\<dots> \<longleftrightarrow> int (length rows) \<le> (k - 1) * p"
    using nn by linarith
  finally show ?thesis .
qed

lemma book_dicts_take_drop:
  assumes "book_dicts s rows = Inr all"
  shows "book_dicts s (take n (drop m rows)) = Inr (take n (drop m all))"
  using assms unfolding book_dicts_Inr_iff
  by (intro list_all2_takeI list_all2_dropI)

lemma books_page_in_range:
  assumes all: "book_dicts s (books s) = Inr all" and p: "1 \<le> p" and k: "1 \<le> k"
    and r: "k = 1 \<or> (k - 1) * p < int (length (books s))"
    and b: "int64 p" "int64 ((k - 1) * p)"
  shows "books_page k p s
         = Inr (JsonPage (int (length (books s))) (page_count p (books s))
                  (take (nat p) (drop (nat ((k - 1) * p)) all)))"
proof -
  let ?items = "take (nat p) (drop (nat ((k - 1) * p)) (books s))"
  have ne: "\<not> (?items = [] \<and> k \<noteq> 1)"
    using r items_empty_iff[OF p k, of "books s"] by auto
  have pg: "paginate k p None True (books s)
        = Inr \<lparr>pg_page = k, pg_per_page = p, pg_total = int (length (books s)), pg_items = ?items\<rparr>"
    using ne b by (simp add: paginate_def prepare_page_args_ok[OF k p] Let_def)
  have d: "book_dicts s ?items = Inr (take (nat p) (drop (nat ((k - 1) * p)) all))"
    using all by (rule book_dicts_take_drop)
  have pc: "pages \<lparr>pg_page = k, pg_per_page = p, pg_total = int (length (books s)), pg_items = ?items\<rparr>
        = page_count p (books s)"
    by (simp add: pages_def page_count_def)
  show ?thesis
    by (simp add: books_page_def pg d pc)
qed

lemma books_page_out_of_range:
  assumes "k \<noteq> 1" and "page_count p (books s) < k"
    and "p < 1 \<or> (int64 p \<and> int64 ((k - 1) * p))"
  shows "books_page k p s = Inl NotFound"
proof (cases "k < 1 \<or> p < 1")
  case True
  then show ?thesis
    by (simp add: books_page_def paginate_def prepare_page_args_bad)
next
  case False
  then have p: "1 \<le> p" and k: "1 \<le> k" by auto
  from assms(3) p have b: "int64 p" "int64 ((k - 1) * p)" by auto
  from assms(2) have "int (length (books s)) \<le> (k - 1) * p"
    using page_count_less_iff[OF p, of "books s" k] by blast
  then have "take (nat p) (drop (nat ((k - 1) * p)) (books s)) = []"
    using items_empty_iff[OF p k, of "books s"] by blast
  then show ?thesis using assms(1) b
    by (simp add: books_page_def paginate_def prepare_page_args_ok[OF k p] Let_def)
qed

lemma books_page_overflow:
  assumes "1 \<le> k" and "1 \<le> p" and "\<not> (int64 p \<and> int64 ((k - 1) * p))"
  shows "books_page k p s = Inl OverflowError"
  using assms(3)
  by (simp add: books_page_def paginate_def prepare_page_args_ok[OF assms(1,2)])

lemma concat_pages:
  "concat (map (\<lambda>m. take p (drop (m * p) xs)) [0..<n]) = take (n * p) xs"
proof (induction n)
  case 0
  then show ?case by simp
next
  case (Suc n)
  have "take (n * p) xs @ take p (drop (n * p) xs) = take (n * p + p) xs"
    by (simp add: take_add)
  then show ?case using Suc by (simp add: add.commute)
qed

lemma upto_from_1: "[1..int n] = map (\<lambda>m. int (Suc m)) [0..<n]"
proof (induction n)
  case 0
  then show ?case by simp
next
  case (Suc n)
  have "[1..int (Suc n)] = [1..int n] @ [int (Suc n)]"
    using upto_rec2[of 1 "int (Suc n)"] by simp
  then show ?case using Suc by simp
qed

lemma int64_offset:
  assumes "0 \<le> x" and "x < int n" and "int n < 2 ^ 63"
  shows "int64 x"
  using assms by (simp add: int64_def)

lemma concat_books_pages:
  assumes all: "book_dicts s (books s) = Inr all" and p: "1 \<le> p" and p64: "int64 p"
    and len64: "int (length (books s)) < 2 ^ 63"
  shows "concat (map (\<lambda>k. response_books (books_page k p s)) [1..page_count p (books s)]) = all"
proof -
  define n where "n = nat (page_count p (books s))"
  have pc: "page_count p (books s) = int n"
    using page_count_nonneg[OF p, of "books s"] by (simp add: n_def)
  have len: "length all = length (books s)"
    using book_dicts_ids[OF all] by (metis length_map)
  have page: "response_books (books_page (int (Suc m)) p s) = take (nat p) (drop (m * nat p) all)"
    if "m < n" for m
  proof -
    have "\<not> page_count p (books s) < int (Suc m)" using that pc by simp
    then have lt: "(int (Suc m) - 1) * p < int (length (books s))"
      using page_count_less_iff[OF p, of "books s" "int (Suc m)"] by linarith
    then have r: "int (Suc m) = 1 \<or> (int (Suc m) - 1) * p < int (length (books s))"
      by simp
    have "0 \<le> (int (Suc m) - 1) * p" using p by simp
    then have o64: "int64 ((int (Suc m) - 1) * p)"
      using lt len64 by (rule int64_offset)
    have "nat ((int (Suc m) - 1) * p) = m * nat p"
      using p by (simp add: nat_mult_distrib)
    then show ?thesis
      using books_page_in_range[OF all p _ r p64 o64] by simp
  qed
  have "concat (map (\<lambda>k. response_books (books_page k p s)) [1..int n])
        = concat (map (\<lambda>m. response_books (books_page (int (Suc m)) p s)) [0..<n])"
    by (simp only: upto_from_1 map_map o_def)
  also have "\<dots> = concat (map (\<lambda>m. take (nat p) (drop (m * nat p) all)) [0..<n])"
    using page by (intro arg_cong[where f = concat] map_cong) auto
  also have "\<dots> = take (n * nat p) all"
    by (rule concat_pages)
  also have "\<dots> = all"
  proof -
    have "\<not> page_count p (books s) < int n" using pc by simp
    moreover have "page_count p (books s) < int n + 1" using pc by simp
    ultimately have "int (length (books s)) \<le> (int n + 1 - 1) * p"
      using page_count_less_iff[OF p, of "books s" "int n + 1"] by blast
    then have "int (length all) \<le> int n * p" by (simp add: len)
    then have "int (length all) \<le> int (n * nat p)" using p by simp
    then have "length all \<le> n * nat p" by linarith
    then show ?thesis by simp
  qed
  finally show ?thesis by (simp only: pc)
qed

text \<open>
  C2. In a store with referential integrity and fewer than \<open>2^53\<close> Books, and for a
  page size \<open>p\<close> from 1 to \<open>2^63 - 1\<close>: a request for page 1, or for a page from 1 to
  the number of pages, is answered with the count of all Books as \<^verbatim>\<open>total\<close>, the
  ceiling of total over \<open>p\<close> as \<^verbatim>\<open>pages\<close>, and as \<^verbatim>\<open>books\<close> the slice of \<open>p\<close> objects
  that starts \<open>(page - 1) * p\<close> objects into the array of \<^verbatim>\<open>/api/books\<close>; the \<^verbatim>\<open>books\<close>
  arrays of the pages 1 to \<^verbatim>\<open>pages\<close>, one after the other, are that array. A request
  without \<^verbatim>\<open>page\<close> reads page 1, one without \<^verbatim>\<open>per_page\<close> reads page size 5.
\<close>

theorem pagination_covers_every_book:
  assumes "ref_integrity s" and "0 < p" and "p < 2 ^ 63" and "int (length (books s)) < 2 ^ 53"
  shows "\<exists>all. api_books s = Inr (JsonBooks all) \<and> length all = length (books s)
     \<and> (\<forall>args k. args_get_int P args ''page'' 1 = k \<and> args_get_int P args ''per_page'' 5 = p
           \<and> (k = 1 \<or> (1 \<le> k \<and> k \<le> page_count p (books s))) \<longrightarrow>
           api_books_paginated P args s
             = Inr (JsonPage (int (length (books s)))
                      \<lceil>real (length (books s)) / real_of_int p\<rceil>
                      (take (nat p) (drop (nat ((k - 1) * p)) all)))
           \<and> status (JsonPage (int (length (books s)))
                      \<lceil>real (length (books s)) / real_of_int p\<rceil>
                      (take (nat p) (drop (nat ((k - 1) * p)) all))) = 200)
     \<and> (\<forall>req. (\<forall>k\<in>set [1..page_count p (books s)].
                  args_get_int P (req k) ''page'' 1 = k \<and> args_get_int P (req k) ''per_page'' 5 = p) \<longrightarrow>
           concat (map (\<lambda>k. response_books (api_books_paginated P (req k) s))
                     [1..page_count p (books s)]) = all)
     \<and> (\<forall>args. args ''page'' = None \<longrightarrow> args_get_int P args ''page'' 1 = 1)
     \<and> (\<forall>args. args ''per_page'' = None \<longrightarrow> args_get_int P args ''per_page'' 5 = 5)"
proof -
  have p: "1 \<le> p" using assms(2) by simp
  have p64: "int64 p" using assms(2,3) by (simp add: int64_def)
  have len64: "int (length (books s)) < 2 ^ 63" using assms(4) by simp
  from assms(1) obtain all where api: "api_books s = Inr (JsonBooks all)"
    and l2: "list_all2 (\<lambda>b j. book_dict s b = Inr j) (books s) all"
    using api_books_ref_integrity by blast
  from l2 have all: "book_dicts s (books s) = Inr all"
    by (simp only: book_dicts_Inr_iff)
  have len: "length all = length (books s)"
    using l2 by (simp add: list_all2_lengthD)
  have one: "api_books_paginated P args s
             = Inr (JsonPage (int (length (books s)))
                      \<lceil>real (length (books s)) / real_of_int p\<rceil>
                      (take (nat p) (drop (nat ((k - 1) * p)) all)))"
    if a: "args_get_int P args ''page'' 1 = k" "args_get_int P args ''per_page'' 5 = p"
      and r: "k = 1 \<or> (1 \<le> k \<and> k \<le> page_count p (books s))" for args k
  proof -
    have k: "1 \<le> k" using r by auto
    have "k = 1 \<or> \<not> page_count p (books s) < k" using r by auto
    then have "k = 1 \<or> \<not> int (length (books s)) \<le> (k - 1) * p"
      using page_count_less_iff[OF p, of "books s" k] by blast
    then have r': "k = 1 \<or> (k - 1) * p < int (length (books s))" by linarith
    have "0 \<le> (k - 1) * p" using k p by simp
    moreover have "(k - 1) * p < int (Suc (length (books s)))" using r' by auto
    moreover have "int (Suc (length (books s))) < 2 ^ 63 \<or> (k - 1) * p < 2 ^ 63"
      using r' len64 by auto
    ultimately have o64: "int64 ((k - 1) * p)"
      using r' len64 by (auto simp: int64_def)
    from books_page_in_range[OF all p k r' p64 o64] show ?thesis
      by (simp add: api_books_paginated_def a page_count_ceiling)
  qed
  have cat: "concat (map (\<lambda>k. response_books (api_books_paginated P (req k) s))
                     [1..page_count p (books s)]) = all"
    if "\<forall>k\<in>set [1..page_count p (books s)].
          args_get_int P (req k) ''page'' 1 = k \<and> args_get_int P (req k) ''per_page'' 5 = p" for req
  proof -
    have eq: "map (\<lambda>k. response_books (api_books_paginated P (req k) s)) [1..page_count p (books s)]
          = map (\<lambda>k. response_books (books_page k p s)) [1..page_count p (books s)]"
      using that by (intro map_cong) (auto simp: api_books_paginated_def)
    show ?thesis unfolding eq by (rule concat_books_pages[OF all p p64 len64])
  qed
  have d1: "\<forall>args. args ''page'' = None \<longrightarrow> args_get_int P args ''page'' 1 = 1"
    by (simp add: args_get_int_def)
  have d2: "\<forall>args. args ''per_page'' = None \<longrightarrow> args_get_int P args ''per_page'' 5 = 5"
    by (simp add: args_get_int_def)
  show ?thesis
  proof (intro exI conjI)
    show "api_books s = Inr (JsonBooks all)" by (rule api)
    show "length all = length (books s)" by (rule len)
    show "\<forall>args k. args_get_int P args ''page'' 1 = k \<and> args_get_int P args ''per_page'' 5 = p
           \<and> (k = 1 \<or> (1 \<le> k \<and> k \<le> page_count p (books s))) \<longrightarrow>
           api_books_paginated P args s
             = Inr (JsonPage (int (length (books s)))
                      \<lceil>real (length (books s)) / real_of_int p\<rceil>
                      (take (nat p) (drop (nat ((k - 1) * p)) all)))
           \<and> status (JsonPage (int (length (books s)))
                      \<lceil>real (length (books s)) / real_of_int p\<rceil>
                      (take (nat p) (drop (nat ((k - 1) * p)) all))) = 200"
      using one by simp
    show "\<forall>req. (\<forall>k\<in>set [1..page_count p (books s)].
                  args_get_int P (req k) ''page'' 1 = k \<and> args_get_int P (req k) ''per_page'' 5 = p) \<longrightarrow>
           concat (map (\<lambda>k. response_books (api_books_paginated P (req k) s))
                     [1..page_count p (books s)]) = all"
      using cat by blast
    show "\<forall>args. args ''page'' = None \<longrightarrow> args_get_int P args ''page'' 1 = 1" by (rule d1)
    show "\<forall>args. args ''per_page'' = None \<longrightarrow> args_get_int P args ''per_page'' 5 = 5" by (rule d2)
  qed
qed

text \<open>A positive page size that is not answered: \<open>2^63\<close>, which the driver refuses as a limit.\<close>

theorem page_size_beyond_64_bits_fails:
  "args_get_int example_platform [''per_page'' \<mapsto> ''9223372036854775808''] ''per_page'' 5
     = 9223372036854775808
   \<and> api_books_paginated example_platform [''per_page'' \<mapsto> ''9223372036854775808''] create_all
     = Inl OverflowError"
  by (simp add: api_books_paginated_def args_get_int_def books_page_def paginate_def
        prepare_page_args_def example_defs)

theorem pagination_covers_every_book_witness:
  "(let st = \<lparr>authors = [\<lparr>a_id = 1, a_name = ''N'', a_bio = None, a_city = None\<rparr>],
        books = [\<lparr>b_id = 1, b_title = ''T'', b_isbn = None, b_author_id = IntCell 1\<rparr>,
                 \<lparr>b_id = 2, b_title = ''U'', b_isbn = None, b_author_id = IntCell 1\<rparr>,
                 \<lparr>b_id = 3, b_title = ''V'', b_isbn = None, b_author_id = IntCell 1\<rparr>],
        foreign_keys = False\<rparr> in
    ref_integrity st \<and> (0::int) < 2 \<and> (2::int) < 2 ^ 63 \<and> int (length (books st)) < 2 ^ 53
    \<and> api_books_paginated example_platform [''page'' \<mapsto> ''2'', ''per_page'' \<mapsto> ''2''] st
        = Inr (JsonPage 3 2 [\<lparr>j_id = 3, j_title = ''V'', j_isbn = None, j_author = ''N''\<rparr>])
    \<and> concat (map (\<lambda>k. response_books
                  (api_books_paginated example_platform
                     [''page'' \<mapsto> (if k = 1 then ''1'' else ''2''), ''per_page'' \<mapsto> ''2''] st))
                [1..2])
        = [\<lparr>j_id = 1, j_title = ''T'', j_isbn = None, j_author = ''N''\<rparr>,
           \<lparr>j_id = 2, j_title = ''U'', j_isbn = None, j_author = ''N''\<rparr>,
           \<lparr>j_id = 3, j_title = ''V'', j_isbn = None, j_author = ''N''\<rparr>]
    \<and> api_books st
        = Inr (JsonBooks [\<lparr>j_id = 1, j_title = ''T'', j_isbn = None, j_author = ''N''\<rparr>,
           \<lparr>j_id = 2, j_title = ''U'', j_isbn = None, j_author = ''N''\<rparr>,
           \<lparr>j_id = 3, j_title = ''V'', j_isbn = None, j_author = ''N''\<rparr>]))"
proof -
  let ?st = "\<lparr>authors = [\<lparr>a_id = 1, a_name = ''N'', a_bio = None, a_city = None\<rparr>],
        books = [\<lparr>b_id = 1, b_title = ''T'', b_isbn = None, b_author_id = IntCell 1\<rparr>,
                 \<lparr>b_id = 2, b_title = ''U'', b_isbn = None, b_author_id = IntCell 1\<rparr>,
                 \<lparr>b_id = 3, b_title = ''V'', b_isbn = None, b_author_id = IntCell 1\<rparr>],
        foreign_keys = False\<rparr>"
  have h1: "ref_integrity ?st" by (simp add: ref_integrity_def Author_get_def)
  have h2: "(0::int) < 2" by simp
  have h3: "(2::int) < 2 ^ 63" by simp
  have h4: "int (length (books ?st)) < 2 ^ 53" by simp
  from pagination_covers_every_book[OF h1 h2 h3 h4, of example_platform]
  obtain all where all: "api_books ?st = Inr (JsonBooks all)"
    and pg: "\<And>args k. args_get_int example_platform args ''page'' 1 = k
           \<and> args_get_int example_platform args ''per_page'' 5 = 2
           \<and> (k = 1 \<or> (1 \<le> k \<and> k \<le> page_count 2 (books ?st))) \<Longrightarrow>
           api_books_paginated example_platform args ?st
             = Inr (JsonPage (int (length (books ?st)))
                      \<lceil>real (length (books ?st)) / real_of_int 2\<rceil>
                      (take (nat 2) (drop (nat ((k - 1) * 2)) all))) "
    and cat: "\<And>req. (\<forall>k\<in>set [1..page_count 2 (books ?st)].
                  args_get_int example_platform (req k) ''page'' 1 = k
                  \<and> args_get_int example_platform (req k) ''per_page'' 5 = 2) \<Longrightarrow>
           concat (map (\<lambda>k. response_books (api_books_paginated example_platform (req k) ?st))
                     [1..page_count 2 (books ?st)]) = all"
    by blast
  have a: "api_books ?st
        = Inr (JsonBooks [\<lparr>j_id = 1, j_title = ''T'', j_isbn = None, j_author = ''N''\<rparr>,
           \<lparr>j_id = 2, j_title = ''U'', j_isbn = None, j_author = ''N''\<rparr>,
           \<lparr>j_id = 3, j_title = ''V'', j_isbn = None, j_author = ''N''\<rparr>])"
    by (simp add: api_books_def book_dict_def Author_get_def)
  with all have alleq: "all = [\<lparr>j_id = 1, j_title = ''T'', j_isbn = None, j_author = ''N''\<rparr>,
           \<lparr>j_id = 2, j_title = ''U'', j_isbn = None, j_author = ''N''\<rparr>,
           \<lparr>j_id = 3, j_title = ''V'', j_isbn = None, j_author = ''N''\<rparr>]" by simp
  have "page_count 2 (books ?st) = 2" by (simp add: page_count_def pages_def)
  then have pc: "page_count 2 [\<lparr>b_id = 1, b_title = ''T'', b_isbn = None, b_author_id = IntCell 1\<rparr>,
                 \<lparr>b_id = 2, b_title = ''U'', b_isbn = None, b_author_id = IntCell 1\<rparr>,
                 \<lparr>b_id = 3, b_title = ''V'', b_isbn = None, b_author_id = IntCell 1\<rparr>] = 2" by simp
  have p2: "api_books_paginated example_platform [''page'' \<mapsto> ''2'', ''per_page'' \<mapsto> ''2''] ?st
        = Inr (JsonPage 3 2 [\<lparr>j_id = 3, j_title = ''V'', j_isbn = None, j_author = ''N''\<rparr>])"
    using pg[of "[''page'' \<mapsto> ''2'', ''per_page'' \<mapsto> ''2'']" 2]
    by (simp add: args_get_int_def example_defs pc alleq)
  have c: "concat (map (\<lambda>k. response_books
                  (api_books_paginated example_platform
                     [''page'' \<mapsto> (if k = 1 then ''1'' else ''2''), ''per_page'' \<mapsto> ''2''] ?st))
                [1..2]) = all"
    using cat[of "\<lambda>k. [''page'' \<mapsto> (if k = 1 then ''1'' else ''2''), ''per_page'' \<mapsto> ''2'']"]
    by (simp add: args_get_int_def example_defs pc)
  show ?thesis
    unfolding Let_def using h1 h2 p2 c a alleq by simp
qed

text \<open>
  C8. A request for a page other than page 1 that lies beyond the last page fails with
  \<open>NotFound\<close> (status 404) when the page size is below 1 and when page size and offset
  are within 64 bits; when the page size or the offset is beyond 64 bits, the request
  fails with \<open>OverflowError\<close> (status 500). Page 1 is never refused for being beyond
  the last page: on a store without Books, where there are 0 pages, it is answered
  with an empty page.
\<close>

theorem page_beyond_last_is_not_found:
  "(args_get_int P args ''page'' 1 = k \<and> args_get_int P args ''per_page'' 5 = p
      \<and> k \<noteq> 1 \<and> page_count p (books s) < k
      \<and> (p < 1 \<or> (int64 p \<and> int64 ((k - 1) * p))) \<longrightarrow>
      api_books_paginated P args s = Inl NotFound \<and> status_of debug NotFound = Some 404)
   \<and> (args_get_int P args ''page'' 1 = k \<and> args_get_int P args ''per_page'' 5 = p
      \<and> 1 \<le> k \<and> 1 \<le> p \<and> \<not> (int64 p \<and> int64 ((k - 1) * p)) \<longrightarrow>
      api_books_paginated P args s = Inl OverflowError
      \<and> status_of debug OverflowError = Some 500)
   \<and> (books s = [] \<and> 1 \<le> p \<and> int64 p
      \<and> args_get_int P args ''page'' 1 = 1 \<and> args_get_int P args ''per_page'' 5 = p \<longrightarrow>
      page_count p (books s) < 1 \<and> api_books_paginated P args s = Inr (JsonPage 0 0 []))"
proof (intro conjI impI)
  assume "args_get_int P args ''page'' 1 = k \<and> args_get_int P args ''per_page'' 5 = p
      \<and> k \<noteq> 1 \<and> page_count p (books s) < k
      \<and> (p < 1 \<or> (int64 p \<and> int64 ((k - 1) * p)))"
  then show "api_books_paginated P args s = Inl NotFound"
    by (simp add: api_books_paginated_def books_page_out_of_range)
next
  show "status_of debug NotFound = Some 404" by simp
next
  assume "args_get_int P args ''page'' 1 = k \<and> args_get_int P args ''per_page'' 5 = p
      \<and> 1 \<le> k \<and> 1 \<le> p \<and> \<not> (int64 p \<and> int64 ((k - 1) * p))"
  then show "api_books_paginated P args s = Inl OverflowError"
    by (simp add: api_books_paginated_def books_page_overflow)
next
  show "status_of debug OverflowError = Some 500" by simp
next
  assume h: "books s = [] \<and> 1 \<le> p \<and> int64 p
      \<and> args_get_int P args ''page'' 1 = 1 \<and> args_get_int P args ''per_page'' 5 = p"
  then show "page_count p (books s) < 1" by (simp add: page_count_def pages_def)
  from h have "book_dicts s (books s) = Inr []" by simp
  from books_page_in_range[OF this, of p 1] h
  show "api_books_paginated P args s = Inr (JsonPage 0 0 [])"
    by (simp add: api_books_paginated_def page_count_def pages_def int64_def)
qed

text \<open>Page 1 of the empty database lies beyond its last page (there is none) and is returned.\<close>

theorem first_page_of_empty_store_is_returned:
  "page_count 5 (books create_all) < 1
   \<and> api_books_paginated example_platform Map.empty create_all = Inr (JsonPage 0 0 [])"
  by (simp add: page_count_def pages_def create_all_def api_books_paginated_def args_get_int_def
        books_page_def paginate_def prepare_page_args_def int64_def)

theorem page_beyond_last_is_not_found_witness:
  "(let st = \<lparr>authors = [\<lparr>a_id = 1, a_name = ''N'', a_bio = None, a_city = None\<rparr>],
        books = [\<lparr>b_id = 1, b_title = ''T'', b_isbn = None, b_author_id = IntCell 1\<rparr>,
                 \<lparr>b_id = 2, b_title = ''U'', b_isbn = None, b_author_id = IntCell 1\<rparr>,
                 \<lparr>b_id = 3, b_title = ''V'', b_isbn = None, b_author_id = IntCell 1\<rparr>],
        foreign_keys = False\<rparr> in
    args_get_int example_platform [''page'' \<mapsto> ''3'', ''per_page'' \<mapsto> ''2''] ''page'' 1 = 3
    \<and> args_get_int example_platform [''page'' \<mapsto> ''3'', ''per_page'' \<mapsto> ''2''] ''per_page'' 5 = 2
    \<and> page_count 2 (books st) < 3
    \<and> api_books_paginated example_platform [''page'' \<mapsto> ''3'', ''per_page'' \<mapsto> ''2''] st
        = Inl NotFound
    \<and> api_books_paginated example_platform
        [''page'' \<mapsto> ''3'', ''per_page'' \<mapsto> ''9223372036854775808''] st
        = Inl OverflowError
    \<and> books create_all = []
    \<and> api_books_paginated example_platform [''per_page'' \<mapsto> ''2''] create_all
        = Inr (JsonPage 0 0 []))"
proof -
  let ?st = "\<lparr>authors = [\<lparr>a_id = 1, a_name = ''N'', a_bio = None, a_city = None\<rparr>],
        books = [\<lparr>b_id = 1, b_title = ''T'', b_isbn = None, b_author_id = IntCell 1\<rparr>,
                 \<lparr>b_id = 2, b_title = ''U'', b_isbn = None, b_author_id = IntCell 1\<rparr>,
                 \<lparr>b_id = 3, b_title = ''V'', b_isbn = None, b_author_id = IntCell 1\<rparr>],
        foreign_keys = False\<rparr>"
  let ?args = "[''page'' \<mapsto> ''3'', ''per_page'' \<mapsto> ''2'']"
  let ?big = "[''page'' \<mapsto> ''3'', ''per_page'' \<mapsto> ''9223372036854775808'']"
  have h: "args_get_int example_platform ?args ''page'' 1 = 3
      \<and> args_get_int example_platform ?args ''per_page'' 5 = 2
      \<and> (3::int) \<noteq> 1 \<and> page_count 2 (books ?st) < 3
      \<and> ((2::int) < 1 \<or> (int64 2 \<and> int64 ((3 - 1) * 2)))"
    by (simp add: args_get_int_def example_defs page_count_def pages_def)
  have o: "args_get_int example_platform ?big ''page'' 1 = 3
      \<and> args_get_int example_platform ?big ''per_page'' 5 = 9223372036854775808
      \<and> (1::int) \<le> 3 \<and> (1::int) \<le> 9223372036854775808
      \<and> \<not> (int64 9223372036854775808 \<and> int64 ((3 - 1) * 9223372036854775808))"
    by (simp add: args_get_int_def example_defs)
  have e: "books create_all = [] \<and> (1::int) \<le> 2 \<and> int64 2
      \<and> args_get_int example_platform [''per_page'' \<mapsto> ''2''] ''page'' 1 = 1
      \<and> args_get_int example_platform [''per_page'' \<mapsto> ''2''] ''per_page'' 5 = 2"
    by (simp add: args_get_int_def example_defs create_all_def)
  from page_beyond_last_is_not_found[of example_platform ?args 3 2 ?st True] h
  have nf: "api_books_paginated example_platform ?args ?st = Inl NotFound" by blast
  from page_beyond_last_is_not_found[of example_platform ?big 3 9223372036854775808 ?st True] o
  have ov: "api_books_paginated example_platform ?big ?st = Inl OverflowError" by blast
  from page_beyond_last_is_not_found[of example_platform "[''per_page'' \<mapsto> ''2'']" _ 2 create_all] e
  have ok: "api_books_paginated example_platform [''per_page'' \<mapsto> ''2''] create_all
      = Inr (JsonPage 0 0 [])" by blast
  show ?thesis unfolding Let_def using h e nf ov ok by simp
qed

section \<open>Sorted listing\<close>

lemma book_dicts_map_projr:
  "book_dicts s xs = Inr js \<Longrightarrow> js = map (\<lambda>b. projr (book_dict s b)) xs"
  unfolding book_dicts_Inr_iff
  by (induction xs js rule: list_all2_induct) auto

lemma sorted_titles_sort_rows:
  "sorted (map b_title (sort_rows b_title False rows))"
  "sorted (rev (map b_title (sort_rows b_title True rows)))"
  by (simp_all add: sort_rows_def rev_map[symmetric])

lemma mset_sort_rows: "mset (sort_rows f d rows) = mset rows"
  by (simp add: sort_rows_def)

text \<open>
  Where the lookup yields the title column (no \<^verbatim>\<open>sort\<close>, \<^verbatim>\<open>sort=title\<close>, or a name the
  class does not have), the answer holds the objects of \<^verbatim>\<open>/api/books\<close>, each as often,
  in ascending title order, or in descending order for \<^verbatim>\<open>order=desc\<close>.
\<close>

lemma api_books_sorting_by_title:
  assumes ri: "ref_integrity s"
    and col: "getattr_Book extra (args_get args ''sort'' ''title'') (Column Book_title) = Column Book_title"
  shows "\<exists>js all. api_books_sorting extra args s = Inr (JsonBooks js)
           \<and> api_books s = Inr (JsonBooks all) \<and> mset js = mset all
           \<and> (if args_get args ''order'' ''asc'' = ''desc''
                then sorted (rev (map j_title js)) else sorted (map j_title js))"
proof -
  let ?d = "args_get args ''order'' ''asc'' = ''desc''"
  let ?rows = "sort_rows b_title ?d (books s)"
  from ri have au: "\<forall>b\<in>set (books s). author_of s (b_author_id b) \<noteq> None"
    by (simp add: ref_integrity_def list_all_iff)
  then obtain all where all: "book_dicts s (books s) = Inr all"
    using book_dicts_total by blast
  have "set ?rows = set (books s)"
    using set_order_by[of Book_title ?d "books s"] by simp
  with au obtain js where js: "book_dicts s ?rows = Inr js"
    using book_dicts_total[of ?rows s] by auto
  have run: "api_books_sorting extra args s = Inr (JsonBooks js)"
    using col js by (simp add: api_books_sorting_def)
  have "mset js = image_mset (\<lambda>b. projr (book_dict s b)) (mset ?rows)"
    using book_dicts_map_projr[OF js] by simp
  also have "\<dots> = image_mset (\<lambda>b. projr (book_dict s b)) (mset (books s))"
    by (simp only: mset_sort_rows)
  also have "\<dots> = mset all"
    using book_dicts_map_projr[OF all] by simp
  finally have ms: "mset js = mset all" .
  have t: "map j_title js = map b_title ?rows" using js by (rule book_dicts_titles)
  have srt: "if ?d then sorted (rev (map j_title js)) else sorted (map j_title js)"
    unfolding t using sorted_titles_sort_rows[of "books s"] by (cases ?d) simp_all
  from run all ms srt show ?thesis by (simp add: api_books_def)
qed

lemma api_books_sorting_unknown_name:
  assumes "Book_getattr extra nm = None"
  shows "api_books_sorting extra (args(''sort'' \<mapsto> nm)) s
       = api_books_sorting extra (args(''sort'' := None)) s"
  using assms by (simp add: api_books_sorting_def args_get_def getattr_Book_def Book_getattr_def)

text \<open>
  C3. The fallback to the title covers only the names the class \<^verbatim>\<open>Book\<close> does not have.
  \<^verbatim>\<open>__tablename__\<close> and \<^verbatim>\<open>__repr__\<close>, which \<^verbatim>\<open>models.py\<close> declares, name no column, yet
  \<^verbatim>\<open>getattr\<close> finds them: the request is not answered in title order, it fails with
  \<open>AttributeError\<close> (status 500), whatever the store holds.
\<close>

theorem api_books_sorting_non_column_attribute_fails:
  "Book_getattr extra ''__tablename__'' = Some (NonColumn Plain)
   \<and> api_books_sorting extra [''sort'' \<mapsto> ''__tablename__''] s = Inl AttributeError
   \<and> api_books_sorting extra [''sort'' \<mapsto> ''__repr__'', ''order'' \<mapsto> ''desc''] s = Inl AttributeError
   \<and> status_of debug AttributeError = Some 500"
  by (simp add: api_books_sorting_def args_get_def getattr_Book_def Book_getattr_def)

end
